theory Spec2Isabelle
  imports Complex_Main "HOL-Library.AList" "HOL-Library.Log_Nat"
begin

section \<open>Values shared by the two tools\<close>

text \<open>
  The two modules under verification are
  \<^verbatim>\<open>infrastructure/inbox/tools/create_task.py\<close> (the inbox tool that creates a task
  and optionally waits for it) and
  \<^verbatim>\<open>infrastructure/flux_runtime/tools/get_task_status.py\<close> (the status query tool).
  Python objects are duck-typed; the model gives every attribute the code reads a field,
  and writes out absence where the code tests for it (\<^verbatim>\<open>getattr\<close> with a default,
  \<^verbatim>\<open>try/except\<close>). A Python float is modelled by the rational number it stands for.
\<close>

text \<open>
  An exception of class \<^verbatim>\<open>Exception\<close>, by the subclass the code tells apart and its
  message.
\<close>

datatype py_error =
    TypeError string
  | ValueError string
  | OverflowError string
  | AttributeError string
  | KeyError string
  | OtherException string

text \<open>\<^verbatim>\<open>str(exc)\<close>: the message an exception carries.\<close>

fun exc_str :: "py_error \<Rightarrow> string" where
  "exc_str (TypeError m) = m"
| "exc_str (ValueError m) = m"
| "exc_str (OverflowError m) = m"
| "exc_str (AttributeError m) = m"
| "exc_str (KeyError m) = m"
| "exc_str (OtherException m) = m"

text \<open>
  What can leave a coroutine of the inbox tool: an exception of class \<^verbatim>\<open>Exception\<close>, or
  a \<^verbatim>\<open>BaseException\<close> outside \<^verbatim>\<open>Exception\<close> (\<^verbatim>\<open>asyncio.CancelledError\<close>,
  \<^verbatim>\<open>KeyboardInterrupt\<close>, \<^verbatim>\<open>SystemExit\<close>), kept as the name of its class. A clause
  \<^verbatim>\<open>except Exception\<close> catches the first kind only.
\<close>

datatype raised = Exc py_error | BaseExc string

text \<open>
  A status or a checkpoint type as the backends hand it out: nothing (the attribute is
  absent or \<^verbatim>\<open>None\<close>), a plain string, or an enum member whose \<^verbatim>\<open>.value\<close> is a string.
\<close>

datatype scalar_obj = PyNone | PyStr string | PyEnum string

text \<open>An attribute that an object may lack altogether.\<close>

datatype 'a attr = Absent | Present 'a

text \<open>A \<^verbatim>\<open>datetime\<close>, kept as the text its \<^verbatim>\<open>isoformat()\<close> returns.\<close>

datatype datetime = Datetime string

fun isoformat :: "datetime \<Rightarrow> string" where
  "isoformat (Datetime s) = s"

text \<open>The JSON-like values the tools put into their result dictionaries.\<close>

datatype json =
    JNull
  | JBool bool
  | JInt int
  | JFloat rat
  | JStr string
  | JList "json list"
  | JDict "(string \<times> json) list"

type_synonym dict = "(string \<times> json) list"

text \<open>
  \<^verbatim>\<open>d[k] = v\<close> on an insertion-ordered dictionary: an existing key keeps its place,
  a new key goes last. \<^verbatim>\<open>d.update(e)\<close> and \<^verbatim>\<open>{**d, k: v}\<close> are built from it.
\<close>

definition dict_set :: "string \<Rightarrow> json \<Rightarrow> dict \<Rightarrow> dict" where
  "dict_set k v d = AList.update k v d"

definition dict_update :: "dict \<Rightarrow> dict \<Rightarrow> dict" where
  "dict_update d e = foldl (\<lambda>acc (k, v). dict_set k v acc) d e"

definition dict_get :: "dict \<Rightarrow> string \<Rightarrow> json option" where
  "dict_get d k = map_of d k"

text \<open>Python truthiness of a JSON-like value.\<close>

fun json_truthy :: "json \<Rightarrow> bool" where
  "json_truthy JNull = False"
| "json_truthy (JBool b) = b"
| "json_truthy (JInt i) = (i \<noteq> 0)"
| "json_truthy (JFloat x) = (x \<noteq> 0)"
| "json_truthy (JStr s) = (s \<noteq> [])"
| "json_truthy (JList xs) = (xs \<noteq> [])"
| "json_truthy (JDict kvs) = (kvs \<noteq> [])"

record step =
  step_status :: scalar_obj

text \<open>
  A task (plan) snapshot. \<open>task_steps\<close> is \<open>None\<close> when the attribute is absent or
  \<^verbatim>\<open>None\<close>. \<open>task_progress\<close> is the snapshot's own \<^verbatim>\<open>get_progress_percentage\<close>:
  \<open>None\<close> when the snapshot has no such method, \<open>Some (Inl e)\<close> when calling it (or
  converting its result with \<^verbatim>\<open>float\<close>) raises, \<open>Some (Inr p)\<close> when it yields \<open>p\<close>.
\<close>

record task =
  task_id :: string
  task_user_id :: string
  task_goal :: string
  task_status :: scalar_obj
  task_steps :: "step list option"
  task_created_at :: "datetime option"
  task_updated_at :: "datetime option"
  task_progress :: "(py_error + rat) option"

text \<open>
  A checkpoint snapshot. The two backend schemas name the owning task \<^verbatim>\<open>plan_id\<close> or
  \<^verbatim>\<open>task_id\<close>; either attribute may be missing.
\<close>

record checkpoint =
  cp_plan_id :: "string attr"
  cp_task_id :: "string attr"
  cp_step_id :: "string option"
  cp_checkpoint_name :: string
  cp_description :: string
  cp_checkpoint_type :: scalar_obj
  cp_preview_data :: json
  cp_questions :: json
  cp_alternatives :: json
  cp_created_at :: "datetime option"
  cp_expires_at :: "datetime option"

record tool_result =
  success :: bool
  data :: "dict option"
  message :: "string option"
  error :: "string option"

section \<open>Status canonicalisation\<close>

text \<open>\<^verbatim>\<open>str.lower\<close> on the ASCII letters.\<close>

definition lower_char :: "char \<Rightarrow> char" where
  "lower_char c =
     (let n = (of_char c :: nat) in if 65 \<le> n \<and> n \<le> 90 then char_of (n + 32) else c)"

definition lower :: "string \<Rightarrow> string" where
  "lower s = map lower_char s"

text \<open>\<^verbatim>\<open>getattr(x, "value", x)\<close>: \<open>None\<close> stands for Python's \<^verbatim>\<open>None\<close>.\<close>

fun value_or_self :: "scalar_obj \<Rightarrow> string option" where
  "value_or_self PyNone = None"
| "value_or_self (PyStr s) = Some s"
| "value_or_self (PyEnum v) = Some v"

text \<open>
  \<^verbatim>\<open>_status_value\<close> (the same function in both modules):
  \<^verbatim>\<open>raw = getattr(status, "value", status);
  return str(raw).lower() if raw is not None else "unknown"\<close>.
\<close>

definition status_value :: "scalar_obj \<Rightarrow> string" where
  "status_value status =
     (case value_or_self status of None \<Rightarrow> ''unknown'' | Some raw \<Rightarrow> lower raw)"

section \<open>Task summaries\<close>

text \<open>
  Python floats are IEEE 754 binary64 numbers, and every float operation rounds the exact
  result to the nearest such number, a tie going to the even mantissa. \<open>floor_log2 q\<close> is
  the exponent \<open>k\<close> with \<open>2\<^sup>k \<le> q < 2\<^sup>k\<^sup>+\<^sup>1\<close> of a positive \<open>q\<close>; a binary64 number near
  \<open>q\<close> is a multiple of \<open>2\<^sup>k\<^sup>-\<^sup>5\<^sup>2\<close> (of \<open>2\<^sup>-\<^sup>1\<^sup>0\<^sup>7\<^sup>4\<close> in the subnormal range). Overflow to
  infinity is left out: the values rounded here are percentages.
\<close>

definition round_half_even :: "rat \<Rightarrow> int" where
  "round_half_even x =
     (let f = \<lfloor>x\<rfloor>; d = x - of_int f in
      if d < 1 / 2 then f else if 1 / 2 < d then f + 1 else if even f then f else f + 1)"

definition floor_log2 :: "rat \<Rightarrow> int" where
  "floor_log2 q =
     (case quotient_of q of
        (a, b) \<Rightarrow> (let k = bitlen a - bitlen b in if 2 powi k \<le> q then k else k - 1))"

definition double_of :: "rat \<Rightarrow> rat" where
  "double_of q =
     (if q = 0 then 0
      else
        (let e = max (floor_log2 \<bar>q\<bar> - 52) (- 1074)
         in of_int (round_half_even (q / 2 powi e)) * 2 powi e))"

text \<open>
  \<^verbatim>\<open>a / b\<close> on two ints (the quotient, correctly rounded), \<^verbatim>\<open>x * y\<close> on floats, and
  \<^verbatim>\<open>round(x, 2)\<close>: the float nearest to the decimal with two places that is nearest to
  \<open>x\<close>, a tie between two decimals going to the even one.
\<close>

definition py_truediv :: "int \<Rightarrow> int \<Rightarrow> rat" where
  "py_truediv a b = double_of (of_int a / of_int b)"

definition float_mul :: "rat \<Rightarrow> rat \<Rightarrow> rat" where
  "float_mul x y = double_of (x * y)"

definition py_round2 :: "rat \<Rightarrow> rat" where
  "py_round2 x = double_of (of_int (round_half_even (x * 100)) / 100)"

text \<open>
  \<^verbatim>\<open>_safe_progress\<close> of create_task.py: the snapshot's own percentage when the call
  succeeds, otherwise the ratio of completed steps.
\<close>

definition safe_progress :: "task \<Rightarrow> int \<Rightarrow> int \<Rightarrow> rat" where
  "safe_progress t completed_steps total_steps =
     (case task_progress t of
        Some (Inr p) \<Rightarrow> p
      | _ \<Rightarrow>
          if total_steps \<le> 0 then 0
          else py_round2 (float_mul (py_truediv completed_steps total_steps) 100))"

text \<open>\<^verbatim>\<open>getattr(task, "steps", None) or []\<close>.\<close>

definition steps_of :: "task \<Rightarrow> step list" where
  "steps_of t = (case task_steps t of None \<Rightarrow> [] | Some ss \<Rightarrow> ss)"

text \<open>
  The counting loop of \<^verbatim>\<open>_summarize_task\<close>: the pair is
  \<open>(completed_steps, failed_steps)\<close>.
\<close>

fun count_steps :: "step list \<Rightarrow> int \<Rightarrow> int \<Rightarrow> int \<times> int" where
  "count_steps [] completed_steps failed_steps = (completed_steps, failed_steps)"
| "count_steps (s # ss) completed_steps failed_steps =
     (let st = status_value (step_status s) in
      if st \<in> {''done'', ''completed''} then count_steps ss (completed_steps + 1) failed_steps
      else if st = ''failed'' then count_steps ss completed_steps (failed_steps + 1)
      else count_steps ss completed_steps failed_steps)"

definition summarize_task :: "task \<Rightarrow> dict" where
  "summarize_task t =
     (let steps = steps_of t;
          total_steps = int (length steps);
          (completed_steps, failed_steps) = count_steps steps 0 0
      in [(''steps_total'', JInt total_steps),
          (''steps_completed'', JInt completed_steps),
          (''steps_failed'', JInt failed_steps),
          (''progress_percentage'', JFloat (safe_progress t completed_steps total_steps))])"

text \<open>
  \<^verbatim>\<open>GetTaskStatusTool._format_plan\<close>: the two \<^verbatim>\<open>sum(1 for s in steps if ...)\<close> counts and
  the progress with its own fallback.
\<close>

definition optional_iso :: "datetime option \<Rightarrow> json" where
  "optional_iso d = (case d of None \<Rightarrow> JNull | Some t \<Rightarrow> JStr (isoformat t))"

definition format_plan :: "task \<Rightarrow> dict" where
  "format_plan plan =
     (let steps = steps_of plan;
          completed_steps =
            int (length (filter (\<lambda>s. status_value (step_status s) \<in> {''done'', ''completed''}) steps));
          failed_steps =
            int (length (filter (\<lambda>s. status_value (step_status s) = ''failed'') steps));
          status_value' = status_value (task_status plan);
          progress =
            (case task_progress plan of
               Some (Inr p) \<Rightarrow> p
             | _ \<Rightarrow>
                 if steps \<noteq> []
                 then py_round2 (float_mul (py_truediv completed_steps (int (length steps))) 100)
                 else 0)
      in [(''plan_id'', JStr (task_id plan)),
          (''goal'', JStr (task_goal plan)),
          (''status'', JStr status_value'),
          (''progress'', JFloat progress),
          (''steps_total'', JInt (int (length steps))),
          (''steps_completed'', JInt completed_steps),
          (''steps_failed'', JInt failed_steps),
          (''created_at'', optional_iso (task_created_at plan)),
          (''updated_at'', optional_iso (task_updated_at plan))])"

section \<open>Checkpoint serialisation\<close>

definition optional_str :: "string option \<Rightarrow> json" where
  "optional_str x = (case x of None \<Rightarrow> JNull | Some s \<Rightarrow> JStr s)"

text \<open>
  \<^verbatim>\<open>_serialize_checkpoint\<close> of create_task.py. The type is
  \<^verbatim>\<open>getattr(checkpoint_type, "value", checkpoint_type) or "approval"\<close>; the task id is
  read as \<^verbatim>\<open>checkpoint.plan_id\<close>, which raises when the attribute is missing.
\<close>

definition serialize_checkpoint :: "checkpoint \<Rightarrow> py_error + dict" where
  "serialize_checkpoint cp =
     (let checkpoint_type_value =
            (case value_or_self (cp_checkpoint_type cp) of
               None \<Rightarrow> ''approval''
             | Some v \<Rightarrow> if v = [] then ''approval'' else v)
      in case cp_plan_id cp of
           Absent \<Rightarrow> Inl (AttributeError ''plan_id'')
         | Present pid \<Rightarrow>
             Inr [(''task_id'', JStr pid),
                  (''step_id'', optional_str (cp_step_id cp)),
                  (''checkpoint_name'', JStr (cp_checkpoint_name cp)),
                  (''description'', JStr (cp_description cp)),
                  (''checkpoint_type'', JStr checkpoint_type_value),
                  (''preview_data'', cp_preview_data cp),
                  (''questions'', cp_questions cp),
                  (''alternatives'', cp_alternatives cp),
                  (''created_at'', optional_iso (cp_created_at cp)),
                  (''expires_at'', optional_iso (cp_expires_at cp))])"

text \<open>
  \<^verbatim>\<open>getattr(c, "plan_id", getattr(c, "task_id", None))\<close>, as get_task_status.py reads the
  owning task of a checkpoint (twice: when filtering and when formatting).
\<close>

definition plan_or_task_id :: "checkpoint \<Rightarrow> string option" where
  "plan_or_task_id c =
     (case cp_plan_id c of
        Present p \<Rightarrow> Some p
      | Absent \<Rightarrow> (case cp_task_id c of Present t \<Rightarrow> Some t | Absent \<Rightarrow> None))"

text \<open>\<^verbatim>\<open>GetTaskStatusTool._format_checkpoint\<close>.\<close>

definition format_checkpoint :: "checkpoint \<Rightarrow> dict" where
  "format_checkpoint cp =
     [(''plan_id'', optional_str (plan_or_task_id cp)),
      (''step_id'', optional_str (cp_step_id cp)),
      (''name'', JStr (cp_checkpoint_name cp)),
      (''description'', JStr (cp_description cp)),
      (''preview'', cp_preview_data cp),
      (''created_at'', optional_iso (cp_created_at cp)),
      (''expires_at'', optional_iso (cp_expires_at cp))]"

section \<open>Arguments, settings and the wait budget\<close>

text \<open>
  The values a JSON tool call can put under \<^verbatim>\<open>wait_timeout_seconds\<close> and
  \<^verbatim>\<open>wait_for_completion\<close>. Python's JSON reader yields an infinite float for a number
  such as \<^verbatim>\<open>1e999\<close>.
\<close>

datatype py_float = Finite rat | PosInf | NegInf | NaN

datatype pyval =
    VNone
  | VBool bool
  | VInt int
  | VFloat py_float
  | VStr string
  | VList "pyval list"
  | VDict "(string \<times> pyval) list"

text \<open>\<^verbatim>\<open>bool(v)\<close>.\<close>

fun py_bool :: "pyval \<Rightarrow> bool" where
  "py_bool VNone = False"
| "py_bool (VBool b) = b"
| "py_bool (VInt i) = (i \<noteq> 0)"
| "py_bool (VFloat (Finite x)) = (x \<noteq> 0)"
| "py_bool (VFloat _) = True"
| "py_bool (VStr s) = (s \<noteq> [])"
| "py_bool (VList xs) = (xs \<noteq> [])"
| "py_bool (VDict kvs) = (kvs \<noteq> [])"

text \<open>
  \<^verbatim>\<open>int(v)\<close>. The parser of \<^verbatim>\<open>int(str)\<close> belongs to the Python runtime and is a
  parameter \<open>int_of_str\<close> (\<open>None\<close>: the text is no integer literal, a \<^verbatim>\<open>ValueError\<close>).
  A finite float is truncated towards zero; \<^verbatim>\<open>int(float("nan"))\<close> is a
  \<^verbatim>\<open>ValueError\<close>, \<^verbatim>\<open>int(float("inf"))\<close> an \<^verbatim>\<open>OverflowError\<close>.
\<close>

fun py_int :: "(string \<Rightarrow> int option) \<Rightarrow> pyval \<Rightarrow> py_error + int" where
  "py_int int_of_str VNone = Inl (TypeError ''int() argument must be a string, a bytes-like object or a real number'')"
| "py_int int_of_str (VBool b) = Inr (if b then 1 else 0)"
| "py_int int_of_str (VInt i) = Inr i"
| "py_int int_of_str (VFloat (Finite x)) = Inr (if 0 \<le> x then \<lfloor>x\<rfloor> else \<lceil>x\<rceil>)"
| "py_int int_of_str (VFloat NaN) = Inl (ValueError ''cannot convert float NaN to integer'')"
| "py_int int_of_str (VFloat PosInf) = Inl (OverflowError ''cannot convert float infinity to integer'')"
| "py_int int_of_str (VFloat NegInf) = Inl (OverflowError ''cannot convert float infinity to integer'')"
| "py_int int_of_str (VStr s) =
     (case int_of_str s of
        Some i \<Rightarrow> Inr i
      | None \<Rightarrow> Inl (ValueError ''invalid literal for int() with base 10''))"
| "py_int int_of_str (VList xs) = Inl (TypeError ''int() argument must be a string, a bytes-like object or a real number'')"
| "py_int int_of_str (VDict kvs) = Inl (TypeError ''int() argument must be a string, a bytes-like object or a real number'')"

text \<open>The three settings of \<^verbatim>\<open>src.core.config\<close> the inbox tool reads.\<close>

record settings =
  INBOX_CREATE_TASK_WAIT_TIMEOUT_SECONDS :: int
  INBOX_CREATE_TASK_WAIT_MAX_TIMEOUT_SECONDS :: int
  INBOX_CREATE_TASK_WAIT_POLL_INTERVAL_SECONDS :: rat

text \<open>
  The arguments of \<^verbatim>\<open>create_task\<close>; \<open>None\<close> is a key the dictionary does not have.
  The constraints are whatever JSON value the caller sent, a dictionary by the schema.
\<close>

record create_args =
  arg_goal :: "string option"
  arg_constraints :: "json option"
  arg_wait_for_completion :: "pyval option"
  arg_wait_timeout_seconds :: "pyval option"

text \<open>
  \<^verbatim>\<open>_resolve_wait_timeout\<close>: only \<^verbatim>\<open>TypeError\<close> and \<^verbatim>\<open>ValueError\<close> are caught;
  any other exception of \<^verbatim>\<open>int(requested)\<close> leaves the function.
\<close>

definition resolve_wait_timeout ::
    "settings \<Rightarrow> (string \<Rightarrow> int option) \<Rightarrow> create_args \<Rightarrow> py_error + int" where
  "resolve_wait_timeout cfg int_of_str arguments =
     (let requested = (case arg_wait_timeout_seconds arguments of None \<Rightarrow> VNone | Some v \<Rightarrow> v);
          default_timeout = INBOX_CREATE_TASK_WAIT_TIMEOUT_SECONDS cfg;
          max_timeout = INBOX_CREATE_TASK_WAIT_MAX_TIMEOUT_SECONDS cfg
      in if requested = VNone then Inr (max 0 (min default_timeout max_timeout))
         else
           (case py_int int_of_str requested of
              Inl (TypeError m) \<Rightarrow> Inr (max 0 (min default_timeout max_timeout))
            | Inl (ValueError m) \<Rightarrow> Inr (max 0 (min default_timeout max_timeout))
            | Inl exc \<Rightarrow> Inl exc
            | Inr timeout_int \<Rightarrow> Inr (max 0 (min timeout_int max_timeout))))"

section \<open>Backend providers\<close>

text \<open>What \<^verbatim>\<open>TaskUseCases.create_task\<close> is called with.\<close>

record create_request =
  req_user_id :: string
  req_organization_id :: string
  req_goal :: string
  req_constraints :: "json option"
  req_metadata :: dict
  req_auto_start :: bool

text \<open>
  The interface of \<^verbatim>\<open>TaskUseCases\<close> the two tools call; every method may raise an
  \<^verbatim>\<open>Exception\<close>. \<open>create_task\<close> yields the \<^verbatim>\<open>id\<close> of the new task, the only attribute read from it.
  \<open>get_task n\<close> is the answer to the fetch made after \<open>n\<close> earlier fetches of the same
  tool call (a task's status changes while the tool waits), and \<open>get_task_latency n\<close>
  the milliseconds that fetch takes. \<open>list_tasks user_id limit\<close> is the listing with
  \<^verbatim>\<open>status=None\<close>.
\<close>

record task_use_cases =
  create_task :: "create_request \<Rightarrow> py_error + string"
  link_conversation :: "string \<Rightarrow> string \<Rightarrow> py_error + unit"
  get_task :: "nat \<Rightarrow> string \<Rightarrow> py_error + task option"
  get_task_latency :: "nat \<Rightarrow> nat"
  list_tasks :: "string \<Rightarrow> int \<Rightarrow> py_error + task list"

record checkpoint_use_cases =
  list_pending :: "string \<Rightarrow> py_error + checkpoint list"
  list_pending_for_task :: "string \<Rightarrow> py_error + checkpoint list"

text \<open>The unified facade; \<open>get_user_plans user_id limit\<close> is called with \<^verbatim>\<open>status=None\<close>.\<close>

record delegation_service =
  get_plan :: "string \<Rightarrow> py_error + task option"
  get_pending_checkpoints :: "string \<Rightarrow> py_error + checkpoint list"
  get_user_plans :: "string \<Rightarrow> int \<Rightarrow> py_error + task list"

text \<open>
  The factories of \<^verbatim>\<open>src.application.tasks.providers\<close>, and a module's two memoised
  globals \<^verbatim>\<open>_task_use_cases\<close> and \<^verbatim>\<open>_checkpoint_use_cases\<close> (each tool module has its
  own pair).
\<close>

record providers =
  provider_get_task_use_cases :: "py_error + task_use_cases"
  provider_get_checkpoint_use_cases :: "py_error + checkpoint_use_cases"

record module_globals =
  g_task_use_cases :: "task_use_cases option"
  g_checkpoint_use_cases :: "checkpoint_use_cases option"

definition get_task_use_cases ::
    "providers \<Rightarrow> module_globals \<Rightarrow> (py_error + task_use_cases) \<times> module_globals" where
  "get_task_use_cases pr g =
     (case g_task_use_cases g of
        Some uc \<Rightarrow> (Inr uc, g)
      | None \<Rightarrow>
          (case provider_get_task_use_cases pr of
             Inl exc \<Rightarrow> (Inl exc, g)
           | Inr uc \<Rightarrow> (Inr uc, g\<lparr>g_task_use_cases := Some uc\<rparr>)))"

definition get_checkpoint_use_cases ::
    "providers \<Rightarrow> module_globals \<Rightarrow> (py_error + checkpoint_use_cases) \<times> module_globals" where
  "get_checkpoint_use_cases pr g =
     (case g_checkpoint_use_cases g of
        Some uc \<Rightarrow> (Inr uc, g)
      | None \<Rightarrow>
          (case provider_get_checkpoint_use_cases pr of
             Inl exc \<Rightarrow> (Inl exc, g)
           | Inr uc \<Rightarrow> (Inr uc, g\<lparr>g_checkpoint_use_cases := Some uc\<rparr>)))"

section \<open>The bounded wait\<close>

text \<open>
  What the inbox tool does to the outside, in order: the backend calls it makes and the
  sleeps it takes. \<open>clock\<close> is \<^verbatim>\<open>time.monotonic()\<close> in seconds. \<open>interrupt n\<close> names
  the \<^verbatim>\<open>BaseException\<close> outside \<^verbatim>\<open>Exception\<close> in which the fetch made after \<open>n\<close>
  earlier fetches ends, if it ends so (the coroutine is cancelled while it awaits the
  backend): the fetch is the awaited call of the wait that stands under
  \<^verbatim>\<open>except Exception\<close>.
\<close>

datatype call =
    CreateTask create_request
  | LinkConversation string string
  | GetTask string
  | ListPendingForTask string
  | Sleep rat

record world =
  clock :: rat
  trace :: "call list"
  interrupt :: "nat \<Rightarrow> string option"

fun is_get_task :: "call \<Rightarrow> bool" where
  "is_get_task (GetTask tid) = True"
| "is_get_task _ = False"


definition fetches :: "world \<Rightarrow> nat" where
  "fetches w = length (filter is_get_task (trace w))"

text \<open>
  How the fetch made after \<open>n\<close> earlier fetches ends: in the interrupt, if one falls on
  it, and else as the backend answers, by raising an \<^verbatim>\<open>Exception\<close> or by returning.
\<close>

definition fetch_outcome ::
    "task_use_cases \<Rightarrow> world \<Rightarrow> nat \<Rightarrow> string \<Rightarrow> raised + task option" where
  "fetch_outcome uc w n tid =
     (case interrupt w n of
        Some b \<Rightarrow> Inl (BaseExc b)
      | None \<Rightarrow> (case get_task uc n tid of Inl exc \<Rightarrow> Inl (Exc exc) | Inr t \<Rightarrow> Inr t))"

text \<open>\<^verbatim>\<open>await task_use_cases.get_task(task_id)\<close>.\<close>

definition call_get_task ::
    "task_use_cases \<Rightarrow> string \<Rightarrow> world \<Rightarrow> (raised + task option) \<times> world" where
  "call_get_task uc tid w =
     (let n = fetches w in
      (fetch_outcome uc w n tid,
       w\<lparr>clock := clock w + of_nat (get_task_latency uc n) / 1000,
         trace := trace w @ [GetTask tid]\<rparr>))"

text \<open>What \<^verbatim>\<open>try: ... except Exception\<close> lets through of an outcome.\<close>

definition escaping :: "raised + 'a \<Rightarrow> string option" where
  "escaping r = (case r of Inl (BaseExc b) \<Rightarrow> Some b | _ \<Rightarrow> None)"

text \<open>
  \<^verbatim>\<open>await asyncio.sleep(d)\<close>, run to its end: a delay that is not positive returns at
  once.
\<close>

definition sleep :: "rat \<Rightarrow> world \<Rightarrow> world" where
  "sleep d w = w\<lparr>clock := clock w + max 0 d, trace := trace w @ [Sleep d]\<rparr>"

definition terminal_statuses :: "string set" where
  "terminal_statuses = {''completed'', ''failed'', ''cancelled'', ''checkpoint''}"

text \<open>
  The \<^verbatim>\<open>while True\<close> loop of \<^verbatim>\<open>_wait_for_terminal_status\<close>; one unfolding is one tick.
  A fetch that raises an \<^verbatim>\<open>Exception\<close> is logged and counts as no snapshot; any other
  \<^verbatim>\<open>BaseException\<close> leaves the loop. The two reads of the clock after the fetch see the
  same instant. The result is \<open>Inr (last snapshot, last status, timed_out)\<close> or \<open>Inl\<close> of
  what the loop raises, with the world the loop leaves behind; \<open>None\<close> is a loop that
  neither returns nor raises.
\<close>

partial_function (option) wait_loop ::
    "task_use_cases \<Rightarrow> string \<Rightarrow> rat \<Rightarrow> rat \<Rightarrow> task option \<Rightarrow> string \<Rightarrow> world
       \<Rightarrow> ((raised + task option \<times> string \<times> bool) \<times> world) option" where
  "wait_loop uc tid poll_interval deadline last_task last_status w =
     (case call_get_task uc tid w of
        (fetched, w1) \<Rightarrow>
          (case escaping fetched of
             Some b \<Rightarrow> Some (Inl (BaseExc b), w1)
           | None \<Rightarrow>
               (let tsk = (case fetched of Inl exc \<Rightarrow> None | Inr t \<Rightarrow> t);
                    last_task' = (case tsk of None \<Rightarrow> last_task | Some t \<Rightarrow> Some t);
                    last_status' =
                      (case tsk of
                         None \<Rightarrow> last_status
                       | Some t \<Rightarrow> status_value (task_status t))
                in if \<not> Option.is_none tsk \<and> last_status' \<in> terminal_statuses
                   then Some (Inr (tsk, last_status', False), w1)
                   else if deadline \<le> clock w1
                   then Some (Inr (last_task', last_status', True), w1)
                   else
                     (let remaining = deadline - clock w1 in
                      wait_loop uc tid poll_interval deadline last_task' last_status'
                        (sleep (min poll_interval (max (1 / 100) remaining)) w1)))))"

declare wait_loop.simps [code]

definition wait_for_terminal_status ::
    "settings \<Rightarrow> task_use_cases \<Rightarrow> string \<Rightarrow> int \<Rightarrow> world
       \<Rightarrow> ((raised + task option \<times> string \<times> bool) \<times> world) option" where
  "wait_for_terminal_status cfg uc tid timeout_seconds w =
     (let poll_interval = max (2 / 10) (INBOX_CREATE_TASK_WAIT_POLL_INTERVAL_SECONDS cfg);
          deadline = clock w + of_int (max 0 timeout_seconds)
      in wait_loop uc tid poll_interval deadline None ''planning'' w)"

section \<open>The inbox tool: create a task\<close>

definition ok_result :: "dict \<Rightarrow> string \<Rightarrow> tool_result" where
  "ok_result d m = \<lparr>success = True, data = Some d, message = Some m, error = None\<rparr>"

definition error_result :: "string \<Rightarrow> tool_result" where
  "error_result e = \<lparr>success = False, data = None, message = None, error = Some e\<rparr>"

text \<open>
  \<^verbatim>\<open>_get_pending_checkpoint\<close>: the first pending checkpoint of the task, serialised, or
  \<^verbatim>\<open>None\<close> when there is none.
\<close>

definition get_pending_checkpoint ::
    "providers \<Rightarrow> string \<Rightarrow> module_globals \<Rightarrow> world
       \<Rightarrow> (py_error + json) \<times> module_globals \<times> world" where
  "get_pending_checkpoint pr tid g w =
     (case get_checkpoint_use_cases pr g of
        (Inl exc, g1) \<Rightarrow> (Inl exc, g1, w)
      | (Inr cuc, g1) \<Rightarrow>
          (let w1 = w\<lparr>trace := trace w @ [ListPendingForTask tid]\<rparr> in
           case list_pending_for_task cuc tid of
             Inl exc \<Rightarrow> (Inl exc, g1, w1)
           | Inr [] \<Rightarrow> (Inr JNull, g1, w1)
           | Inr (first # rest) \<Rightarrow>
               (case serialize_checkpoint first of
                  Inl exc \<Rightarrow> (Inl exc, g1, w1)
                | Inr d \<Rightarrow> (Inr (JDict d), g1, w1))))"

text \<open>The context of a \<^verbatim>\<open>create_task\<close> call; \<open>None\<close> is a missing key.\<close>

record create_context =
  cc_user_id :: "string option"
  cc_organization_id :: "string option"
  cc_conversation_id :: "string option"
  cc_file_references :: "json option"

text \<open>
  The part of \<^verbatim>\<open>InboxCreateTaskTool.execute\<close> that follows the wait: the summary of the
  observed snapshot is merged in, then the result is chosen from the outcome.
\<close>

definition after_wait ::
    "providers \<Rightarrow> string \<Rightarrow> string \<Rightarrow> int \<Rightarrow> dict \<Rightarrow> task option \<Rightarrow> string \<Rightarrow> bool
       \<Rightarrow> module_globals \<Rightarrow> world \<Rightarrow> (py_error + tool_result) \<times> module_globals \<times> world" where
  "after_wait pr goal new_id wait_timeout_seconds base_data0 observed_task observed_status
       timed_out g w =
     (let base_data =
            (case observed_task of
               None \<Rightarrow> base_data0
             | Some t \<Rightarrow> dict_update base_data0 (summarize_task t))
      in if timed_out then
           (Inr (ok_result
                  (dict_update base_data
                     [(''status'', JStr ''running''),
                      (''current_status'', JStr observed_status),
                      (''timed_out'', JBool True),
                      (''wait_timeout_seconds'', JInt wait_timeout_seconds)])
                  ''Task started and is still running. Use get_task_status for updates.''),
            g, w)
         else if observed_status = ''checkpoint'' then
           (case get_pending_checkpoint pr new_id g w of
              (Inl exc, g1, w1) \<Rightarrow> (Inl exc, g1, w1)
            | (Inr checkpoint_data, g1, w1) \<Rightarrow>
                (Inr (ok_result
                       (dict_update base_data
                          [(''status'', JStr ''checkpoint''), (''checkpoint'', checkpoint_data)])
                       ''Task is waiting for your checkpoint approval.''),
                 g1, w1))
         else if observed_status \<in> {''completed'', ''failed'', ''cancelled''} then
           (Inr (ok_result
                  (dict_set ''status'' (JStr observed_status) base_data)
                  (''Task reached terminal status: '' @ observed_status @ ''.'')),
            g, w)
         else
           (Inr (ok_result
                  (dict_set ''status'' (JStr observed_status) base_data)
                  ''Task created and started.''),
            g, w))"

text \<open>
  The \<^verbatim>\<open>try\<close> block of \<^verbatim>\<open>execute\<close>: resolve the provider, create the task, link it to
  the conversation, then answer at once or wait. \<open>Inl\<close> is what is raised inside the
  block, with the state reached when it was raised.
\<close>

definition create_task_try ::
    "settings \<Rightarrow> providers \<Rightarrow> string \<Rightarrow> json \<Rightarrow> bool \<Rightarrow> int \<Rightarrow> string \<Rightarrow> string \<Rightarrow> string
       \<Rightarrow> module_globals \<Rightarrow> world
       \<Rightarrow> ((raised + tool_result) \<times> module_globals \<times> world) option" where
  "create_task_try cfg pr goal constraints wait_for_completion wait_timeout_seconds
       user_id organization_id conversation_id g w =
     (case get_task_use_cases pr g of
        (Inl exc, g1) \<Rightarrow> Some (Inl (Exc exc), g1, w)
      | (Inr uc, g1) \<Rightarrow>
          (let request =
                 \<lparr>req_user_id = user_id,
                  req_organization_id = organization_id,
                  req_goal = goal,
                  req_constraints = (if json_truthy constraints then Some constraints else None),
                  req_metadata =
                    [(''source'', JStr ''inbox_chat''),
                     (''conversation_id'', JStr conversation_id)],
                  req_auto_start = True\<rparr>;
               w1 = w\<lparr>trace := trace w @ [CreateTask request]\<rparr>
           in case create_task uc request of
                Inl exc \<Rightarrow> Some (Inl (Exc exc), g1, w1)
              | Inr new_id \<Rightarrow>
                  (let w2 = w1\<lparr>trace := trace w1 @ [LinkConversation new_id conversation_id]\<rparr>
                   in case link_conversation uc new_id conversation_id of
                        Inl exc \<Rightarrow> Some (Inl (Exc exc), g1, w2)
                      | Inr u \<Rightarrow>
                          (let base_data =
                                 [(''task_id'', JStr new_id),
                                  (''goal'', JStr goal),
                                  (''timed_out'', JBool False)]
                           in if \<not> wait_for_completion then
                                Some (Inr (ok_result
                                            (dict_set ''status'' (JStr ''planning'') base_data)
                                            (''Task created and planning started: '' @ goal)),
                                      g1, w2)
                              else
                                (case wait_for_terminal_status cfg uc new_id
                                        wait_timeout_seconds w2 of
                                   None \<Rightarrow> None
                                 | Some (Inl r, w3) \<Rightarrow> Some (Inl r, g1, w3)
                                 | Some (Inr (observed_task, observed_status, timed_out), w3) \<Rightarrow>
                                     (case after_wait pr goal new_id wait_timeout_seconds
                                             base_data observed_task observed_status
                                             timed_out g1 w3 of
                                        (Inl exc, g2, w4) \<Rightarrow> Some (Inl (Exc exc), g2, w4)
                                      | (Inr res, g2, w4) \<Rightarrow> Some (Inr res, g2, w4)))))))"

definition str_truthy :: "string option \<Rightarrow> bool" where
  "str_truthy x = (case x of None \<Rightarrow> False | Some s \<Rightarrow> s \<noteq> [])"

text \<open>The string behind a context value that has passed the truthiness test.\<close>

definition str_of :: "string option \<Rightarrow> string" where
  "str_of x = (case x of None \<Rightarrow> [] | Some s \<Rightarrow> s)"

text \<open>
  \<^verbatim>\<open>constraints["file_references"] = file_references\<close>: a dictionary takes the item;
  any other value raises a \<^verbatim>\<open>TypeError\<close>.
\<close>

definition no_item_assignment :: "string \<Rightarrow> py_error" where
  "no_item_assignment cls =
     TypeError ([CHR 0x27] @ cls @ [CHR 0x27] @ '' object does not support item assignment'')"

fun set_file_references :: "json \<Rightarrow> json \<Rightarrow> py_error + json" where
  "set_file_references (JDict d) refs = Inr (JDict (dict_set ''file_references'' refs d))"
| "set_file_references (JList xs) refs =
     Inl (TypeError ''list indices must be integers or slices, not str'')"
| "set_file_references (JStr s) refs = Inl (no_item_assignment ''str'')"
| "set_file_references (JInt i) refs = Inl (no_item_assignment ''int'')"
| "set_file_references (JFloat x) refs = Inl (no_item_assignment ''float'')"
| "set_file_references (JBool b) refs = Inl (no_item_assignment ''bool'')"
| "set_file_references JNull refs = Inl (no_item_assignment ''NoneType'')"

text \<open>
  \<^verbatim>\<open>InboxCreateTaskTool.execute\<close>. The lines before the \<^verbatim>\<open>try\<close> block can raise
  (\<^verbatim>\<open>arguments["goal"]\<close>, \<^verbatim>\<open>_resolve_wait_timeout\<close>, the item assignment into the
  constraints): the outer \<open>Inl\<close>. An \<^verbatim>\<open>Exception\<close> inside the block becomes a failed
  result; any other \<^verbatim>\<open>BaseException\<close> leaves \<^verbatim>\<open>execute\<close>. \<open>None\<close> is a call that
  neither returns nor raises.
\<close>

definition create_task_execute ::
    "settings \<Rightarrow> (string \<Rightarrow> int option) \<Rightarrow> providers \<Rightarrow> create_args \<Rightarrow> create_context
       \<Rightarrow> module_globals \<Rightarrow> world
       \<Rightarrow> ((raised + tool_result) \<times> module_globals \<times> world) option" where
  "create_task_execute cfg int_of_str pr arguments context g w =
     (case arg_goal arguments of
        None \<Rightarrow> Some (Inl (Exc (KeyError ''goal'')), g, w)
      | Some goal \<Rightarrow>
          (let constraints0 =
                 (case arg_constraints arguments of
                    None \<Rightarrow> JDict []
                  | Some c \<Rightarrow> if json_truthy c then c else JDict []);
               wait_for_completion =
                 (case arg_wait_for_completion arguments of None \<Rightarrow> True | Some v \<Rightarrow> py_bool v)
           in case resolve_wait_timeout cfg int_of_str arguments of
                Inl exc \<Rightarrow> Some (Inl (Exc exc), g, w)
              | Inr wait_timeout_seconds \<Rightarrow>
                  (let user_id = cc_user_id context;
                       organization_id =
                         (case cc_organization_id context of None \<Rightarrow> [] | Some s \<Rightarrow> s);
                       conversation_id = cc_conversation_id context
                   in case (case cc_file_references context of
                              None \<Rightarrow> Inr constraints0
                            | Some refs \<Rightarrow>
                                if json_truthy refs
                                then set_file_references constraints0 refs
                                else Inr constraints0) of
                        Inl exc \<Rightarrow> Some (Inl (Exc exc), g, w)
                      | Inr constraints \<Rightarrow>
                          if \<not> str_truthy user_id \<or> \<not> str_truthy conversation_id then
                            Some (Inr (error_result
                                         ''Missing user_id or conversation_id in context''),
                                  g, w)
                          else
                            (case create_task_try cfg pr goal constraints wait_for_completion
                                    wait_timeout_seconds (str_of user_id) organization_id
                                    (str_of conversation_id) g w of
                               None \<Rightarrow> None
                             | Some (Inl (Exc exc), g1, w1) \<Rightarrow>
                                 Some (Inr (error_result
                                              (''Failed to create task: '' @ exc_str exc)),
                                       g1, w1)
                             | Some (Inl (BaseExc b), g1, w1) \<Rightarrow> Some (Inl (BaseExc b), g1, w1)
                             | Some (Inr res, g1, w1) \<Rightarrow> Some (Inr res, g1, w1)))))"

section \<open>The status query tool\<close>

text \<open>
  The arguments and the context of a \<^verbatim>\<open>get_task_status\<close> call; \<open>None\<close> is a missing
  key (for the three providers also a \<^verbatim>\<open>None\<close> value).
\<close>

record status_args =
  sa_plan_id :: "string option"
  sa_include_completed :: "bool option"
  sa_include_checkpoints :: "bool option"
  sa_limit :: "int option"

record status_context =
  sc_user_id :: "string option"
  sc_delegation_service :: "delegation_service option"
  sc_task_use_cases :: "task_use_cases option"
  sc_checkpoint_use_cases :: "checkpoint_use_cases option"

text \<open>
  Modelled from the spec: the members of the enum \<^verbatim>\<open>TaskStatus\<close> of
  \<^verbatim>\<open>src.domain.tasks.models\<close>, which listing mode imports and which is not among the
  sources. The spec gives the canonical statuses planning, ready, executing and
  checkpoint (active) and completed, failed and cancelled (terminal).
\<close>

definition TaskStatus_PLANNING :: scalar_obj where "TaskStatus_PLANNING = PyEnum ''planning''"
definition TaskStatus_READY :: scalar_obj where "TaskStatus_READY = PyEnum ''ready''"
definition TaskStatus_EXECUTING :: scalar_obj where "TaskStatus_EXECUTING = PyEnum ''executing''"
definition TaskStatus_CHECKPOINT :: scalar_obj where "TaskStatus_CHECKPOINT = PyEnum ''checkpoint''"
definition TaskStatus_COMPLETED :: scalar_obj where "TaskStatus_COMPLETED = PyEnum ''completed''"
definition TaskStatus_FAILED :: scalar_obj where "TaskStatus_FAILED = PyEnum ''failed''"
definition TaskStatus_CANCELLED :: scalar_obj where "TaskStatus_CANCELLED = PyEnum ''cancelled''"

definition active_status_values :: "string set" where
  "active_status_values =
     status_value `
       {TaskStatus_PLANNING, TaskStatus_READY, TaskStatus_EXECUTING, TaskStatus_CHECKPOINT}"

definition terminal_status_values :: "string set" where
  "terminal_status_values =
     {status_value TaskStatus_COMPLETED,
      status_value TaskStatus_FAILED,
      status_value TaskStatus_CANCELLED}"

text \<open>\<^verbatim>\<open>str(n)\<close> of a length, for the summary line: its decimal digits.\<close>

definition digit_char :: "nat \<Rightarrow> char" where
  "digit_char d = char_of (of_char CHR ''0'' + d)"

function str_nat :: "nat \<Rightarrow> string" where
  "str_nat n =
     (if 10 \<le> n then str_nat (n div 10) @ [digit_char (n mod 10)] else [digit_char n])"
  by pat_completeness auto
termination
  by (relation "measure id") auto

declare str_nat.simps [simp del]

text \<open>\<^verbatim>\<open>", ".join(parts)\<close>.\<close>

fun join_comma :: "string list \<Rightarrow> string" where
  "join_comma [] = []"
| "join_comma [x] = x"
| "join_comma (x # y # ys) = x @ '', '' @ join_comma (y # ys)"

text \<open>
  Single-task mode, inside the \<^verbatim>\<open>try\<close> block. The block is entered only with a
  delegation service or task use-cases at hand; calling a method on \<^verbatim>\<open>None\<close> would be
  an \<^verbatim>\<open>AttributeError\<close>.
\<close>

definition single_task ::
    "string \<Rightarrow> string \<Rightarrow> bool \<Rightarrow> delegation_service option \<Rightarrow> task_use_cases option
       \<Rightarrow> checkpoint_use_cases option \<Rightarrow> py_error + tool_result" where
  "single_task plan_id user_id include_checkpoints ds tuc cuc =
     (case (case ds of
              Some d \<Rightarrow> get_plan d plan_id
            | None \<Rightarrow>
                (case tuc of
                   Some uc \<Rightarrow> get_task uc 0 plan_id
                 | None \<Rightarrow> Inl (AttributeError ''get_task''))) of
        Inl exc \<Rightarrow> Inl exc
      | Inr None \<Rightarrow> Inr (error_result (''Task not found: '' @ plan_id))
      | Inr (Some plan) \<Rightarrow>
          if task_user_id plan \<noteq> user_id then Inr (error_result ''Access denied to this task'')
          else
            (let result_data = format_plan plan in
             case (if include_checkpoints then
                     (case (case ds of
                              Some d \<Rightarrow> get_pending_checkpoints d user_id
                            | None \<Rightarrow>
                                (case cuc of
                                   Some c \<Rightarrow> list_pending_for_task c plan_id
                                 | None \<Rightarrow> Inr [])) of
                        Inl exc \<Rightarrow> Inl exc
                      | Inr checkpoints \<Rightarrow>
                          (let plan_checkpoints =
                                 filter (\<lambda>c. plan_or_task_id c = Some plan_id) checkpoints
                           in Inr (if plan_checkpoints \<noteq> [] then
                                     dict_set ''pending_checkpoints''
                                       (JList (map (\<lambda>c. JDict (format_checkpoint c))
                                                 plan_checkpoints))
                                       result_data
                                   else result_data)))
                   else Inr result_data) of
               Inl exc \<Rightarrow> Inl exc
             | Inr result_data' \<Rightarrow>
                 Inr (ok_result result_data'
                        (''Task '' @ [CHR 0x27] @ take 50 (task_goal plan) @ ''...'' @ [CHR 0x27]
                           @ '' is '' @ status_value (task_status plan)))))"

text \<open>Listing mode, inside the \<^verbatim>\<open>try\<close> block.\<close>

definition list_all ::
    "string \<Rightarrow> bool \<Rightarrow> bool \<Rightarrow> int \<Rightarrow> delegation_service option \<Rightarrow> task_use_cases option
       \<Rightarrow> checkpoint_use_cases option \<Rightarrow> py_error + tool_result" where
  "list_all user_id include_completed include_checkpoints limit ds tuc cuc =
     (case (case ds of
              Some d \<Rightarrow> get_user_plans d user_id limit
            | None \<Rightarrow>
                (case tuc of
                   Some uc \<Rightarrow> list_tasks uc user_id limit
                 | None \<Rightarrow> Inl (AttributeError ''list_tasks''))) of
        Inl exc \<Rightarrow> Inl exc
      | Inr active_plans \<Rightarrow>
          (let active_tasks =
                 filter (\<lambda>p. status_value (task_status p) \<in> active_status_values) active_plans;
               completed_tasks =
                 (if include_completed then
                    take 5 (filter (\<lambda>p. status_value (task_status p) \<in> terminal_status_values)
                              active_plans)
                  else [])
           in case (if include_checkpoints then
                      (case (case ds of
                               Some d \<Rightarrow> get_pending_checkpoints d user_id
                             | None \<Rightarrow>
                                 (case cuc of
                                    Some c \<Rightarrow> list_pending c user_id
                                  | None \<Rightarrow> Inr [])) of
                         Inl exc \<Rightarrow> Inl exc
                       | Inr checkpoints \<Rightarrow> Inr (map format_checkpoint checkpoints))
                    else Inr []) of
                Inl exc \<Rightarrow> Inl exc
              | Inr pending_checkpoints \<Rightarrow>
                  (let result_data0 =
                         [(''active_tasks'', JList (map (\<lambda>p. JDict (format_plan p)) active_tasks)),
                          (''active_count'', JInt (int (length active_tasks)))];
                       result_data1 =
                         (if include_completed then
                            dict_set ''completed_count'' (JInt (int (length completed_tasks)))
                              (dict_set ''completed_tasks''
                                 (JList (map (\<lambda>p. JDict (format_plan p)) completed_tasks))
                                 result_data0)
                          else result_data0);
                       result_data =
                         (if include_checkpoints then
                            dict_set ''checkpoint_count'' (JInt (int (length pending_checkpoints)))
                              (dict_set ''pending_checkpoints''
                                 (JList (map JDict pending_checkpoints)) result_data1)
                          else result_data1);
                       summary_parts =
                         (if active_tasks \<noteq> []
                          then [str_nat (length active_tasks) @ '' active task(s)'']
                          else [])
                         @ (if pending_checkpoints \<noteq> []
                            then [str_nat (length pending_checkpoints)
                                    @ '' checkpoint(s) pending approval'']
                            else [])
                         @ (if completed_tasks \<noteq> []
                            then [str_nat (length completed_tasks) @ '' recently completed'']
                            else []);
                       message' =
                         (if summary_parts = [] then ''No active tasks''
                          else join_comma summary_parts)
                   in Inr (ok_result result_data message'))))"

text \<open>
  Provider resolution at the head of \<^verbatim>\<open>GetTaskStatusTool.execute\<close>: what the context
  carries is used; a split provider that is needed and absent is built by its factory
  and memoised; a factory that raises is logged and leaves the provider unavailable.
  The result is the task use-cases and the checkpoint use-cases the call goes on with.
\<close>

definition resolve_providers ::
    "providers \<Rightarrow> bool \<Rightarrow> status_context \<Rightarrow> module_globals
       \<Rightarrow> task_use_cases option \<times> checkpoint_use_cases option \<times> module_globals" where
  "resolve_providers pr include_checkpoints context g =
     (let delegation_service = sc_delegation_service context in
      case (if Option.is_none delegation_service \<and> Option.is_none (sc_task_use_cases context)
            then (case get_task_use_cases pr g of
                    (Inl exc, g') \<Rightarrow> (None, g')
                  | (Inr uc, g') \<Rightarrow> (Some uc, g'))
            else (sc_task_use_cases context, g)) of
        (task_use_cases, g1) \<Rightarrow>
          (case (if include_checkpoints \<and> Option.is_none delegation_service
                      \<and> Option.is_none (sc_checkpoint_use_cases context)
                 then (case get_checkpoint_use_cases pr g1 of
                         (Inl exc, g') \<Rightarrow> (None, g')
                       | (Inr uc, g') \<Rightarrow> (Some uc, g'))
                 else (sc_checkpoint_use_cases context, g1)) of
             (checkpoint_use_cases, g2) \<Rightarrow> (task_use_cases, checkpoint_use_cases, g2)))"

text \<open>
  \<^verbatim>\<open>GetTaskStatusTool.execute\<close>: defaults, the user check, provider resolution, the
  availability check, then one of the two modes; an exception inside the \<^verbatim>\<open>try\<close>
  block becomes a failed result.
\<close>

definition get_task_status_execute ::
    "providers \<Rightarrow> status_args \<Rightarrow> status_context \<Rightarrow> module_globals
       \<Rightarrow> tool_result \<times> module_globals" where
  "get_task_status_execute pr arguments context g =
     (let plan_id = sa_plan_id arguments;
          include_completed =
            (case sa_include_completed arguments of None \<Rightarrow> False | Some b \<Rightarrow> b);
          include_checkpoints =
            (case sa_include_checkpoints arguments of None \<Rightarrow> True | Some b \<Rightarrow> b);
          limit = (case sa_limit arguments of None \<Rightarrow> 10 | Some n \<Rightarrow> n);
          user_id = sc_user_id context;
          delegation_service = sc_delegation_service context
      in if \<not> str_truthy user_id then (error_result ''User context not available'', g)
         else
           (case resolve_providers pr include_checkpoints context g of
              (task_use_cases, checkpoint_use_cases, g2) \<Rightarrow>
                if Option.is_none delegation_service \<and> Option.is_none task_use_cases
                then (error_result ''Delegation service not available'', g2)
                else
                  (case (if str_truthy plan_id
                         then single_task (str_of plan_id) (str_of user_id)
                                include_checkpoints delegation_service task_use_cases
                                checkpoint_use_cases
                         else list_all (str_of user_id) include_completed
                                include_checkpoints limit delegation_service
                                task_use_cases checkpoint_use_cases) of
                     Inl exc \<Rightarrow>
                       (error_result (''Failed to get task status: '' @ exc_str exc), g2)
                   | Inr res \<Rightarrow> (res, g2))))"

section \<open>Vocabulary of the properties\<close>

text \<open>
  The step counts the properties speak of, written as plain counts over the step list
  the summaries read.
\<close>

definition completed_step :: "step \<Rightarrow> bool" where
  "completed_step s = (status_value (step_status s) \<in> {''done'', ''completed''})"

definition failed_step :: "step \<Rightarrow> bool" where
  "failed_step s = (status_value (step_status s) = ''failed'')"

definition count_total :: "task \<Rightarrow> int" where
  "count_total t = int (length (steps_of t))"

definition count_completed :: "task \<Rightarrow> int" where
  "count_completed t = int (length (filter completed_step (steps_of t)))"

definition count_failed :: "task \<Rightarrow> int" where
  "count_failed t = int (length (filter failed_step (steps_of t)))"

text \<open>
  The fallback percentage in the spec's words:
  \<^verbatim>\<open>round(steps_completed / steps_total * 100, 2)\<close>, or \<^verbatim>\<open>0.0\<close> when there are no steps.
\<close>

definition fallback_progress :: "task \<Rightarrow> rat" where
  "fallback_progress t =
     (if count_total t = 0 then 0
      else py_round2 (float_mul (py_truediv (count_completed t) (count_total t)) 100))"

text \<open>
  \<^verbatim>\<open>clamp(x, lo, hi)\<close> in the spec's words: \<open>x\<close> brought into the interval from \<open>lo\<close>
  to \<open>hi\<close>.
\<close>

definition clamp :: "int \<Rightarrow> int \<Rightarrow> int \<Rightarrow> int" where
  "clamp x lo hi = (if x < lo then lo else if hi < x then hi else x)"

section \<open>Sample inputs\<close>

text \<open>
  Concrete snapshots and backends on which the properties are evaluated. They follow
  the fixtures of the unit tests: a snapshot with its own percentage
  (\<^verbatim>\<open>get_progress_percentage=lambda: 50.0\<close>) and a bare one without.
\<close>

definition sample_step :: "string \<Rightarrow> step" where
  "sample_step st = \<lparr>step_status = PyEnum st\<rparr>"

definition sample_task :: "string \<Rightarrow> string \<Rightarrow> string list \<Rightarrow> (py_error + rat) option \<Rightarrow> task" where
  "sample_task owner st step_sts own_progress =
     \<lparr>task_id = ''task-123'',
      task_user_id = owner,
      task_goal = ''Research agent patterns'',
      task_status = PyEnum st,
      task_steps = Some (map sample_step step_sts),
      task_created_at = Some (Datetime ''2025-01-01T00:00:00''),
      task_updated_at = None,
      task_progress = own_progress\<rparr>"

definition sample_checkpoint :: "string attr \<Rightarrow> string attr \<Rightarrow> scalar_obj \<Rightarrow> checkpoint" where
  "sample_checkpoint plan_ref task_ref tp =
     \<lparr>cp_plan_id = plan_ref,
      cp_task_id = task_ref,
      cp_step_id = Some ''step-approval'',
      cp_checkpoint_name = ''approval'',
      cp_description = ''Need approval'',
      cp_checkpoint_type = tp,
      cp_preview_data = JDict [(''risk'', JStr ''high'')],
      cp_questions = JNull,
      cp_alternatives = JNull,
      cp_created_at = Some (Datetime ''2025-01-01T00:00:00''),
      cp_expires_at = None\<rparr>"

definition sample_settings :: settings where
  "sample_settings =
     \<lparr>INBOX_CREATE_TASK_WAIT_TIMEOUT_SECONDS = 20,
      INBOX_CREATE_TASK_WAIT_MAX_TIMEOUT_SECONDS = 120,
      INBOX_CREATE_TASK_WAIT_POLL_INTERVAL_SECONDS = 1\<rparr>"

definition sample_args :: "pyval option \<Rightarrow> pyval option \<Rightarrow> create_args" where
  "sample_args wait timeout =
     \<lparr>arg_goal = Some ''Research agent patterns'',
      arg_constraints = None,
      arg_wait_for_completion = wait,
      arg_wait_timeout_seconds = timeout\<rparr>"

definition sample_context :: create_context where
  "sample_context =
     \<lparr>cc_user_id = Some ''user-123'',
      cc_organization_id = Some ''org-123'',
      cc_conversation_id = Some ''conv-123'',
      cc_file_references = None\<rparr>"

text \<open>
  A backend whose task creation answers \<open>created\<close> and whose every fetch answers
  \<open>fetched\<close>, and the factories that hand it out; no checkpoint store can be built.
\<close>

definition sample_use_cases ::
    "(py_error + string) \<Rightarrow> (py_error + task option) \<Rightarrow> task list \<Rightarrow> task_use_cases" where
  "sample_use_cases created fetched listed =
     \<lparr>create_task = (\<lambda>r. created),
      link_conversation = (\<lambda>t c. Inr ()),
      get_task = (\<lambda>n t. fetched),
      get_task_latency = (\<lambda>n. 0),
      list_tasks = (\<lambda>u l. Inr listed)\<rparr>"

definition sample_providers :: "task_use_cases \<Rightarrow> providers" where
  "sample_providers uc =
     \<lparr>provider_get_task_use_cases = Inr uc,
      provider_get_checkpoint_use_cases = Inl (OtherException ''checkpoint store unavailable'')\<rparr>"

text \<open>Factories that both fail.\<close>

definition broken_providers :: providers where
  "broken_providers =
     \<lparr>provider_get_task_use_cases = Inl (OtherException ''task store unavailable''),
      provider_get_checkpoint_use_cases = Inl (OtherException ''checkpoint store unavailable'')\<rparr>"

definition no_globals :: module_globals where
  "no_globals = \<lparr>g_task_use_cases = None, g_checkpoint_use_cases = None\<rparr>"

definition world0 :: world where
  "world0 = \<lparr>clock = 0, trace = [], interrupt = (\<lambda>n. None)\<rparr>"


definition sample_status_args :: "string option \<Rightarrow> bool option \<Rightarrow> status_args" where
  "sample_status_args pid completed =
     \<lparr>sa_plan_id = pid,
      sa_include_completed = completed,
      sa_include_checkpoints = None,
      sa_limit = None\<rparr>"

definition sample_status_context :: "string \<Rightarrow> status_context" where
  "sample_status_context uid =
     \<lparr>sc_user_id = Some uid,
      sc_delegation_service = None,
      sc_task_use_cases = None,
      sc_checkpoint_use_cases = None\<rparr>"

text \<open>A checkpoint store in which nothing is pending.\<close>

definition no_pending :: checkpoint_use_cases where
  "no_pending = \<lparr>list_pending = (\<lambda>u. Inr []), list_pending_for_task = (\<lambda>t. Inr [])\<rparr>"

text \<open>The arguments of a status query after their defaults.\<close>

definition wants_completed :: "status_args \<Rightarrow> bool" where
  "wants_completed arguments =
     (case sa_include_completed arguments of None \<Rightarrow> False | Some b \<Rightarrow> b)"

definition wants_checkpoints :: "status_args \<Rightarrow> bool" where
  "wants_checkpoints arguments =
     (case sa_include_checkpoints arguments of None \<Rightarrow> True | Some b \<Rightarrow> b)"

definition limit_of :: "status_args \<Rightarrow> int" where
  "limit_of arguments = (case sa_limit arguments of None \<Rightarrow> 10 | Some n \<Rightarrow> n)"

text \<open>Active and terminal tasks, by canonical status, as the spec lists them.\<close>

definition is_active :: "task \<Rightarrow> bool" where
  "is_active p =
     (status_value (task_status p) \<in> {''planning'', ''ready'', ''executing'', ''checkpoint''})"

definition is_terminal :: "task \<Rightarrow> bool" where
  "is_terminal p = (status_value (task_status p) \<in> {''completed'', ''failed'', ''cancelled''})"

section \<open>Step counts and progress\<close>

lemma count_steps_filter:
  "count_steps ss c f =
     (c + int (length (filter completed_step ss)), f + int (length (filter failed_step ss)))"
  by (induction ss arbitrary: c f) (auto simp: completed_step_def failed_step_def Let_def)

lemma disjoint_counts:
  "length (filter completed_step ss) + length (filter failed_step ss) \<le> length ss"
proof (induction ss)
  case Nil
  then show ?case by simp
next
  case (Cons s ss)
  have "\<not> (completed_step s \<and> failed_step s)"
    by (auto simp: completed_step_def failed_step_def)
  with Cons show ?case by auto
qed

lemma summarize_fields:
  "dict_get (summarize_task t) ''steps_total'' = Some (JInt (count_total t))"
  "dict_get (summarize_task t) ''steps_completed'' = Some (JInt (count_completed t))"
  "dict_get (summarize_task t) ''steps_failed'' = Some (JInt (count_failed t))"
  "dict_get (summarize_task t) ''progress_percentage''
     = Some (JFloat (safe_progress t (count_completed t) (count_total t)))"
  by (simp_all add: summarize_task_def dict_get_def count_steps_filter Let_def
        count_total_def count_completed_def count_failed_def)

lemma format_plan_fields:
  "dict_get (format_plan t) ''steps_total'' = Some (JInt (count_total t))"
  "dict_get (format_plan t) ''steps_completed'' = Some (JInt (count_completed t))"
  "dict_get (format_plan t) ''steps_failed'' = Some (JInt (count_failed t))"
  by (simp_all add: format_plan_def dict_get_def Let_def completed_step_def failed_step_def
        count_total_def count_completed_def count_failed_def cong: filter_cong)

lemma round_half_even_le:
  assumes "x \<le> of_int n"
  shows "round_half_even x \<le> n"
proof -
  have f: "\<lfloor>x\<rfloor> \<le> n" using assms by (simp add: floor_le_iff)
  show ?thesis
  proof (cases "\<lfloor>x\<rfloor> = n")
    case True
    then have "x - of_int \<lfloor>x\<rfloor> \<le> 0" using assms by simp
    then show ?thesis using True by (simp add: round_half_even_def Let_def)
  next
    case False
    with f have "\<lfloor>x\<rfloor> + 1 \<le> n" by simp
    with f show ?thesis by (simp add: round_half_even_def Let_def)
  qed
qed

lemma round_half_even_nonneg:
  assumes "0 \<le> x"
  shows "0 \<le> round_half_even x"
proof -
  have "0 \<le> \<lfloor>x\<rfloor>" using assms by simp
  then show ?thesis by (simp add: round_half_even_def Let_def)
qed

lemma floor_log2_le:
  assumes "0 < q"
  shows "2 powi floor_log2 q \<le> q"
proof -
  obtain a b where ab: "quotient_of q = (a, b)" by (cases "quotient_of q")
  have b: "0 < b" using ab quotient_of_denom_pos by blast
  have q: "q = of_int a / of_int b" using ab by (rule quotient_of_div)
  have a: "0 < a" using assms b q by (simp add: zero_less_divide_iff)
  define k where "k = bitlen a - bitlen b"
  show ?thesis
  proof (cases "2 powi k \<le> q")
    case True
    then show ?thesis by (simp add: floor_log2_def ab k_def Let_def)
  next
    case False
    have la: "(2::int) ^ nat (bitlen a - 1) \<le> a" using bitlen_bounds [OF a] by simp
    have lb: "b < 2 ^ nat (bitlen b)" using bitlen_bounds [OF b] by simp
    have ba: "1 \<le> bitlen a" using a by (simp add: bitlen_alt_def)
    have bb: "0 \<le> bitlen b" by (rule bitlen_nonneg)
    have ra: "(2::rat) ^ nat (bitlen a - 1) \<le> of_int a"
      using la by (metis of_int_le_iff of_int_numeral of_int_power)
    have rb: "of_int b \<le> (2::rat) ^ nat (bitlen b)"
      using lb by (metis less_imp_le of_int_le_iff of_int_numeral of_int_power)
    have "(2::rat) powi (k - 1) = 2 powi (bitlen a - 1) / 2 powi (bitlen b)"
      by (simp add: k_def power_int_diff)
    also have "\<dots> = 2 ^ nat (bitlen a - 1) / 2 ^ nat (bitlen b)"
      using ba bb by (simp add: power_int_def)
    also have "\<dots> \<le> of_int a / of_int b"
      using ra rb b a by (intro frac_le) simp_all
    finally have "(2::rat) powi (k - 1) \<le> q" by (simp add: q)
    then show ?thesis using False by (simp add: floor_log2_def ab k_def Let_def)
  qed
qed

lemma floor_log2_less:
  assumes "0 < q" and "q < 2 powi n"
  shows "floor_log2 q < n"
proof (rule ccontr)
  assume "\<not> floor_log2 q < n"
  then have "n \<le> floor_log2 q" by simp
  then have "(2::rat) powi n \<le> 2 powi floor_log2 q"
    by (intro power_int_increasing) simp_all
  with floor_log2_le [OF assms(1)] assms(2) show False by simp
qed

lemma double_of_nonneg:
  assumes "0 \<le> q"
  shows "0 \<le> double_of q"
proof (cases "q = 0")
  case True
  then show ?thesis by (simp add: double_of_def)
next
  case False
  define e where "e = max (floor_log2 \<bar>q\<bar> - 52) (- 1074)"
  have "0 \<le> q / 2 powi e" using assms by simp
  then have "0 \<le> round_half_even (q / 2 powi e)" by (rule round_half_even_nonneg)
  then show ?thesis using False by (simp add: double_of_def e_def [symmetric] Let_def)
qed

text \<open>A bound that lies on the grid of every value below it is kept by the rounding.\<close>

lemma double_of_le:
  assumes "0 \<le> q" and "q \<le> of_int m * 2 powi s" and "q < 2 powi (s + 53)" and "- 1074 \<le> s"
  shows "double_of q \<le> of_int m * 2 powi s"
proof (cases "q = 0")
  case True
  then show ?thesis using assms by (simp add: double_of_def)
next
  case False
  then have pos: "0 < q" using assms(1) by simp
  define e where "e = max (floor_log2 \<bar>q\<bar> - 52) (- 1074)"
  have "floor_log2 q < s + 53" using pos assms(3) by (rule floor_log2_less)
  then have es: "e \<le> s" using assms(4) pos by (simp add: e_def)
  define n where "n = m * 2 ^ nat (s - e)"
  have "(2::rat) powi s = 2 powi e * 2 powi (s - e)"
    by (simp add: power_int_add [symmetric])
  also have "\<dots> = 2 powi e * 2 ^ nat (s - e)" using es by (simp add: power_int_def)
  finally have grid: "of_int m * (2::rat) powi s = of_int n * 2 powi e" by (simp add: n_def)
  have "q / 2 powi e \<le> of_int n"
    using assms(2) unfolding grid by (simp add: divide_le_eq)
  then have "round_half_even (q / 2 powi e) \<le> n" by (rule round_half_even_le)
  then have "of_int (round_half_even (q / 2 powi e)) * (2::rat) powi e \<le> of_int n * 2 powi e"
    by (intro mult_right_mono) simp_all
  then show ?thesis using False unfolding grid by (simp add: double_of_def e_def [symmetric] Let_def)
qed

lemma double_of_le_100:
  assumes "0 \<le> q" and "q \<le> 100"
  shows "double_of q \<le> 100"
  using double_of_le [of q 100 0] assms by simp

lemma double_of_le_1:
  assumes "0 \<le> q" and "q \<le> 1"
  shows "double_of q \<le> 1"
  using double_of_le [of q 1 0] assms by simp

lemma py_round2_bounds:
  assumes "0 \<le> x" "x \<le> 100"
  shows "0 \<le> py_round2 x \<and> py_round2 x \<le> 100"
proof -
  define n where "n = round_half_even (x * 100)"
  have "x * 100 \<le> of_int 10000" using assms by simp
  then have n1: "n \<le> 10000" unfolding n_def by (rule round_half_even_le)
  have "0 \<le> x * 100" using assms by simp
  then have n0: "0 \<le> n" unfolding n_def by (rule round_half_even_nonneg)
  have "0 \<le> rat_of_int n / 100" "rat_of_int n / 100 \<le> 100"
    using n0 n1 by simp_all
  then have "0 \<le> double_of (rat_of_int n / 100)" "double_of (rat_of_int n / 100) \<le> 100"
    by (simp_all add: double_of_nonneg double_of_le_100)
  then show ?thesis by (simp add: py_round2_def n_def)
qed

lemma percentage_bounds:
  assumes "0 \<le> c" "c \<le> t" "0 < t"
  shows "0 \<le> py_round2 (float_mul (py_truediv c t) 100)
         \<and> py_round2 (float_mul (py_truediv c t) 100) \<le> 100"
proof -
  have "0 \<le> rat_of_int c / of_int t" "rat_of_int c / of_int t \<le> 1"
    using assms by simp_all
  then have q: "0 \<le> py_truediv c t" "py_truediv c t \<le> 1"
    by (simp_all add: py_truediv_def double_of_nonneg double_of_le_1)
  then have "0 \<le> py_truediv c t * 100" "py_truediv c t * 100 \<le> 100" by simp_all
  then have "0 \<le> float_mul (py_truediv c t) 100" "float_mul (py_truediv c t) 100 \<le> 100"
    by (simp_all add: float_mul_def double_of_nonneg double_of_le_100)
  then show ?thesis by (rule py_round2_bounds)
qed

lemma fallback_bounds: "0 \<le> fallback_progress t \<and> fallback_progress t \<le> 100"
proof (cases "count_total t = 0")
  case True
  then show ?thesis by (simp add: fallback_progress_def)
next
  case False
  have c: "0 \<le> count_completed t" "count_completed t \<le> count_total t"
    by (simp_all add: count_completed_def count_total_def)
  have t: "0 < count_total t" using False by (simp add: count_total_def)
  from percentage_bounds [OF c t] show ?thesis using False by (simp add: fallback_progress_def)
qed

lemma safe_progress_fallback:
  "\<forall>p. task_progress t \<noteq> Some (Inr p) \<Longrightarrow>
     safe_progress t (count_completed t) (count_total t) = fallback_progress t"
  by (auto simp: safe_progress_def fallback_progress_def count_total_def
        split: option.splits sum.splits)

lemma format_plan_progress:
  "dict_get (format_plan t) ''progress''
     = Some (JFloat (case task_progress t of Some (Inr p) \<Rightarrow> p | _ \<Rightarrow> fallback_progress t))"
  by (simp add: format_plan_def dict_get_def Let_def completed_step_def fallback_progress_def
        count_total_def count_completed_def cong: filter_cong
        split: option.splits sum.splits)

text \<open>
  The float arithmetic shows in the second place: for 23 of 160 steps the exact
  percentage is 14.375, a tie that would round to 14.38, but the float product lies
  below it and rounds to 14.37.
\<close>

lemma float_product_below_tie:
  "float_mul (py_truediv 23 160) 100 < 14375 / 1000
   \<and> py_round2 (float_mul (py_truediv 23 160) 100) = double_of (1437 / 100)
   \<and> double_of (1437 / 100) < double_of (1438 / 100)"
  by code_simp

text \<open>
  C10. Both summaries (\<^verbatim>\<open>_summarize_task\<close> and \<^verbatim>\<open>_format_plan\<close>) report as
  \<^verbatim>\<open>steps_total\<close> the number of steps, as \<^verbatim>\<open>steps_completed\<close> the number of steps whose
  canonical status is \<^verbatim>\<open>done\<close> or \<^verbatim>\<open>completed\<close>, and as \<^verbatim>\<open>steps_failed\<close> the number
  whose canonical status is exactly \<^verbatim>\<open>failed\<close>; a step in any other status is in
  neither count. Both counts are non-negative, their sum is at most the total, and a
  task without a steps attribute (or with \<^verbatim>\<open>None\<close>) has total 0.
\<close>

theorem summary_step_counts:
  "dict_get (summarize_task t) ''steps_total'' = Some (JInt (count_total t))
   \<and> dict_get (summarize_task t) ''steps_completed'' = Some (JInt (count_completed t))
   \<and> dict_get (summarize_task t) ''steps_failed'' = Some (JInt (count_failed t))
   \<and> dict_get (format_plan t) ''steps_total'' = Some (JInt (count_total t))
   \<and> dict_get (format_plan t) ''steps_completed'' = Some (JInt (count_completed t))
   \<and> dict_get (format_plan t) ''steps_failed'' = Some (JInt (count_failed t))
   \<and> 0 \<le> count_completed t \<and> 0 \<le> count_failed t
   \<and> count_completed t + count_failed t \<le> count_total t
   \<and> count_total (t\<lparr>task_steps := None\<rparr>) = 0"
proof -
  have "length (filter completed_step (steps_of t)) + length (filter failed_step (steps_of t))
          \<le> length (steps_of t)"
    by (rule disjoint_counts)
  then have "count_completed t + count_failed t \<le> count_total t"
    by (simp add: count_completed_def count_failed_def count_total_def)
  moreover have "count_total (t\<lparr>task_steps := None\<rparr>) = 0"
    by (simp add: count_total_def steps_of_def)
  moreover have "0 \<le> count_completed t" "0 \<le> count_failed t"
    by (simp_all add: count_completed_def count_failed_def)
  ultimately show ?thesis
    by (simp add: summarize_fields format_plan_fields)
qed

text \<open>
  The counts on a task with six steps, two of them completed (one written in capitals)
  and one failed.
\<close>

theorem summary_step_counts_witness:
  "dict_get (summarize_task (sample_task ''u'' ''executing''
       [''DONE'', ''completed'', ''failed'', ''running'', ''pending'', ''checkpoint''] None))
     ''steps_completed'' = Some (JInt 2)
   \<and> dict_get (format_plan (sample_task ''u'' ''executing''
       [''DONE'', ''completed'', ''failed'', ''running'', ''pending'', ''checkpoint''] None))
     ''steps_failed'' = Some (JInt 1)
   \<and> count_total (sample_task ''u'' ''executing''
       [''DONE'', ''completed'', ''failed'', ''running'', ''pending'', ''checkpoint''] None) = 6"
proof -
  let ?t = "sample_task ''u'' ''executing''
       [''DONE'', ''completed'', ''failed'', ''running'', ''pending'', ''checkpoint''] None"
  have c: "count_completed ?t = 2" by code_simp
  have f: "count_failed ?t = 1" by code_simp
  have n: "count_total ?t = 6" by code_simp
  show ?thesis using summary_step_counts [of ?t] by (simp only: c f n simp_thms)
qed

text \<open>
  C6, as amended. When the snapshot's own percentage is present and does not fail, both
  summaries report exactly that value, whatever it is. Otherwise both report the
  fallback \<^verbatim>\<open>round(steps_completed / steps_total * 100, 2)\<close>, which lies within
  \<open>[0, 100]\<close> and is \<open>0\<close> when there are no steps. (The status query calls the field
  \<^verbatim>\<open>progress\<close>, the inbox tool \<^verbatim>\<open>progress_percentage\<close>.)
\<close>

theorem progress_percentage_value:
  "(task_progress t = Some (Inr p) \<longrightarrow>
      dict_get (summarize_task t) ''progress_percentage'' = Some (JFloat p)
      \<and> dict_get (format_plan t) ''progress'' = Some (JFloat p))
   \<and> ((\<forall>q. task_progress t \<noteq> Some (Inr q)) \<longrightarrow>
      dict_get (summarize_task t) ''progress_percentage'' = Some (JFloat (fallback_progress t))
      \<and> dict_get (format_plan t) ''progress'' = Some (JFloat (fallback_progress t)))
   \<and> 0 \<le> fallback_progress t \<and> fallback_progress t \<le> 100
   \<and> (count_total t = 0 \<longrightarrow> fallback_progress t = 0)"
proof -
  have own: "dict_get (summarize_task t) ''progress_percentage'' = Some (JFloat p)
      \<and> dict_get (format_plan t) ''progress'' = Some (JFloat p)"
    if "task_progress t = Some (Inr p)"
    using that by (simp add: summarize_fields format_plan_progress safe_progress_def)
  have fb: "dict_get (summarize_task t) ''progress_percentage'' = Some (JFloat (fallback_progress t))
      \<and> dict_get (format_plan t) ''progress'' = Some (JFloat (fallback_progress t))"
    if "\<forall>q. task_progress t \<noteq> Some (Inr q)"
  proof -
    have "(case task_progress t of Some (Inr p) \<Rightarrow> p | _ \<Rightarrow> fallback_progress t)
            = fallback_progress t"
      using that by (auto split: option.splits sum.splits)
    then show ?thesis
      using that by (simp add: summarize_fields format_plan_progress safe_progress_fallback)
  qed
  have "count_total t = 0 \<longrightarrow> fallback_progress t = 0"
    by (simp add: fallback_progress_def)
  then show ?thesis using own fb fallback_bounds by blast
qed

text \<open>
  The three cases on sample snapshots: an own percentage of 50; a failing percentage
  method with 23 of 160 steps completed, where the float product is just below 14.375 and
  the result is the float of 14.37; and a snapshot without steps.
\<close>

theorem progress_percentage_value_witness:
  "task_progress (sample_task ''u'' ''planning'' [''pending''] (Some (Inr 50))) = Some (Inr 50)
   \<and> dict_get (summarize_task (sample_task ''u'' ''planning'' [''pending''] (Some (Inr 50))))
        ''progress_percentage'' = Some (JFloat 50)
   \<and> (\<forall>q. task_progress (sample_task ''u'' ''executing''
              (replicate 23 ''done'' @ replicate 137 ''pending'')
              (Some (Inl (OtherException ''no steps loaded'')))) \<noteq> Some (Inr q))
   \<and> dict_get (format_plan (sample_task ''u'' ''executing''
              (replicate 23 ''done'' @ replicate 137 ''pending'')
              (Some (Inl (OtherException ''no steps loaded''))))) ''progress''
        = Some (JFloat (double_of (1437 / 100)))
   \<and> count_total (sample_task ''u'' ''planning'' [] None) = 0
   \<and> fallback_progress (sample_task ''u'' ''planning'' [] None) = 0"
proof -
  let ?a = "sample_task ''u'' ''planning'' [''pending''] (Some (Inr 50))"
  let ?b = "sample_task ''u'' ''executing'' (replicate 23 ''done'' @ replicate 137 ''pending'')
              (Some (Inl (OtherException ''no steps loaded'')))"
  let ?c = "sample_task ''u'' ''planning'' [] None"
  have a: "task_progress ?a = Some (Inr 50)" by (simp add: sample_task_def)
  have b: "\<forall>q. task_progress ?b \<noteq> Some (Inr q)" by (simp add: sample_task_def)
  have fb: "fallback_progress ?b = double_of (1437 / 100)" by code_simp
  have c: "count_total ?c = 0" by code_simp
  from progress_percentage_value [of ?a 50] a
  have 1: "dict_get (summarize_task ?a) ''progress_percentage'' = Some (JFloat 50)" by blast
  from progress_percentage_value [of ?b] b
  have 2: "dict_get (format_plan ?b) ''progress'' = Some (JFloat (fallback_progress ?b))" by blast
  from progress_percentage_value [of ?c] c
  have 3: "fallback_progress ?c = 0" by blast
  show ?thesis using a b c 1 2 3 by (simp only: fb simp_thms)
qed

text \<open>
  C6 as stated fails: a snapshot whose own percentage is 250 is reported with 250 by
  both summaries, outside \<open>[0, 100]\<close>; nothing clamps the snapshot's value.
\<close>

theorem progress_percentage_out_of_range:
  "dict_get (summarize_task (sample_task ''u'' ''executing'' [''done'', ''pending''] (Some (Inr 250))))
     ''progress_percentage'' = Some (JFloat 250)
   \<and> dict_get (format_plan (sample_task ''u'' ''executing'' [''done'', ''pending''] (Some (Inr 250))))
     ''progress'' = Some (JFloat 250)
   \<and> \<not> (250 :: rat) \<le> 100"
proof -
  have 1: "dict_get (summarize_task (sample_task ''u'' ''executing'' [''done'', ''pending''] (Some (Inr 250))))
     ''progress_percentage'' = Some (JFloat 250)" by code_simp
  have 2: "dict_get (format_plan (sample_task ''u'' ''executing'' [''done'', ''pending''] (Some (Inr 250))))
     ''progress'' = Some (JFloat 250)" by code_simp
  show ?thesis using 1 2 by simp
qed

section \<open>The wait budget\<close>

text \<open>
  With a maximum that is not negative, \<^verbatim>\<open>max(0, min(x, max_timeout))\<close> is the clamp of
  \<open>x\<close> to the interval from \<open>0\<close> to the maximum. The resolved timeout is the clamp of the
  default when the argument is missing or \<^verbatim>\<open>None\<close> or when \<^verbatim>\<open>int\<close> raises a
  \<^verbatim>\<open>TypeError\<close> or a \<^verbatim>\<open>ValueError\<close>, and the clamp of the converted value when
  \<^verbatim>\<open>int\<close> succeeds.
\<close>

lemma clamp_max_min: "0 \<le> hi \<Longrightarrow> max 0 (min x hi) = clamp x 0 hi"
  by (auto simp: clamp_def)

lemma resolve_wait_timeout_clamp:
  assumes "0 \<le> INBOX_CREATE_TASK_WAIT_MAX_TIMEOUT_SECONDS cfg"
  shows "(arg_wait_timeout_seconds arguments \<in> {None, Some VNone} \<longrightarrow>
            resolve_wait_timeout cfg int_of_str arguments
              = Inr (clamp (INBOX_CREATE_TASK_WAIT_TIMEOUT_SECONDS cfg) 0
                      (INBOX_CREATE_TASK_WAIT_MAX_TIMEOUT_SECONDS cfg)))
         \<and> (arg_wait_timeout_seconds arguments = Some v \<and> py_int int_of_str v = Inr n \<longrightarrow>
            resolve_wait_timeout cfg int_of_str arguments
              = Inr (clamp n 0 (INBOX_CREATE_TASK_WAIT_MAX_TIMEOUT_SECONDS cfg)))
         \<and> (arg_wait_timeout_seconds arguments = Some v
              \<and> (py_int int_of_str v = Inl (TypeError m) \<or> py_int int_of_str v = Inl (ValueError m)) \<longrightarrow>
            resolve_wait_timeout cfg int_of_str arguments
              = Inr (clamp (INBOX_CREATE_TASK_WAIT_TIMEOUT_SECONDS cfg) 0
                      (INBOX_CREATE_TASK_WAIT_MAX_TIMEOUT_SECONDS cfg)))"
proof -
  have none: "py_int int_of_str VNone \<noteq> Inr k" for k by simp
  show ?thesis
    using assms none
    by (auto simp: resolve_wait_timeout_def Let_def clamp_max_min
          split: option.splits sum.splits py_error.splits)
qed

text \<open>
  C3. The claim gives every value that does not convert to an integer the clamped
  default. An infinite float does not convert, but \<^verbatim>\<open>int\<close> raises an
  \<^verbatim>\<open>OverflowError\<close> for it, which the \<^verbatim>\<open>except (TypeError, ValueError)\<close> clause does
  not catch: \<^verbatim>\<open>_resolve_wait_timeout\<close> raises, and since it is called before the
  \<^verbatim>\<open>try\<close> block of \<^verbatim>\<open>execute\<close>, so does the tool call.
\<close>

theorem infinite_timeout_raises:
  "resolve_wait_timeout cfg int_of_str (arguments\<lparr>arg_wait_timeout_seconds := Some (VFloat PosInf)\<rparr>)
     = Inl (OverflowError ''cannot convert float infinity to integer'')
   \<and> create_task_execute cfg int_of_str pr
        (arguments\<lparr>arg_goal := Some goal, arg_wait_timeout_seconds := Some (VFloat PosInf)\<rparr>)
        context g w
     = Some (Inl (Exc (OverflowError ''cannot convert float infinity to integer'')), g, w)"
  by (simp add: resolve_wait_timeout_def create_task_execute_def Let_def)

text \<open>The failing call on the sample settings: a goal and an infinite timeout.\<close>

theorem infinite_timeout_raises_witness:
  "resolve_wait_timeout sample_settings (\<lambda>s. None) (sample_args None (Some (VFloat PosInf)))
     = Inl (OverflowError ''cannot convert float infinity to integer'')
   \<and> create_task_execute sample_settings (\<lambda>s. None)
        (sample_providers (sample_use_cases (Inr ''task-123'') (Inr None) []))
        (sample_args None (Some (VFloat PosInf))) sample_context no_globals world0
     = Some (Inl (Exc (OverflowError ''cannot convert float infinity to integer'')),
             no_globals, world0)"
  using infinite_timeout_raises [of sample_settings "\<lambda>s. None" "sample_args None None"
          "sample_providers (sample_use_cases (Inr ''task-123'') (Inr None) [])"
          "''Research agent patterns''" sample_context no_globals world0]
  by (simp add: sample_args_def)

section \<open>The two checkpoint serialisers\<close>

text \<open>
  C5, as amended. The inbox tool's serialiser takes the id from \<^verbatim>\<open>plan_id\<close> and yields
  a non-empty \<^verbatim>\<open>checkpoint_type\<close>: \<^verbatim>\<open>approval\<close> when the source type is absent or
  falsy, the source value otherwise. The status query's serialiser takes the id from
  \<^verbatim>\<open>plan_id\<close>, falls back to \<^verbatim>\<open>task_id\<close> when \<^verbatim>\<open>plan_id\<close> is absent (null when
  both are), and has no \<^verbatim>\<open>checkpoint_type\<close> field.
\<close>

theorem checkpoint_serialization_paths:
  "(cp_plan_id cp = Present pid \<longrightarrow>
      (\<exists>d ty. serialize_checkpoint cp = Inr d
         \<and> dict_get d ''task_id'' = Some (JStr pid)
         \<and> dict_get d ''checkpoint_type'' = Some (JStr ty)
         \<and> ty \<noteq> []
         \<and> (cp_checkpoint_type cp \<in> {PyNone, PyStr [], PyEnum []} \<longrightarrow> ty = ''approval'')
         \<and> (\<forall>v. cp_checkpoint_type cp \<in> {PyStr v, PyEnum v} \<and> v \<noteq> [] \<longrightarrow> ty = v)))
   \<and> (cp_plan_id cp = Present pid \<longrightarrow>
        dict_get (format_checkpoint cp) ''plan_id'' = Some (JStr pid))
   \<and> (cp_plan_id cp = Absent \<and> cp_task_id cp = Present tid \<longrightarrow>
        dict_get (format_checkpoint cp) ''plan_id'' = Some (JStr tid))
   \<and> (cp_plan_id cp = Absent \<and> cp_task_id cp = Absent \<longrightarrow>
        dict_get (format_checkpoint cp) ''plan_id'' = Some JNull)
   \<and> dict_get (format_checkpoint cp) ''checkpoint_type'' = None"
proof -
  have fmt: "dict_get (format_checkpoint cp) ''plan_id'' = Some (optional_str (plan_or_task_id cp))"
    "dict_get (format_checkpoint cp) ''checkpoint_type'' = None"
    by (simp_all add: format_checkpoint_def dict_get_def)
  have ser: "\<exists>d ty. serialize_checkpoint cp = Inr d
         \<and> dict_get d ''task_id'' = Some (JStr pid)
         \<and> dict_get d ''checkpoint_type'' = Some (JStr ty)
         \<and> ty \<noteq> []
         \<and> (cp_checkpoint_type cp \<in> {PyNone, PyStr [], PyEnum []} \<longrightarrow> ty = ''approval'')
         \<and> (\<forall>v. cp_checkpoint_type cp \<in> {PyStr v, PyEnum v} \<and> v \<noteq> [] \<longrightarrow> ty = v)"
    if "cp_plan_id cp = Present pid"
    using that
    by (cases "cp_checkpoint_type cp")
       (auto simp: serialize_checkpoint_def dict_get_def Let_def)
  show ?thesis
    using ser by (auto simp: fmt plan_or_task_id_def optional_str_def)
qed

text \<open>
  The serialisers on three sample checkpoints: one with \<^verbatim>\<open>plan_id\<close> and an enum type of
  empty value, one with \<^verbatim>\<open>task_id\<close> only, one with neither.
\<close>

theorem checkpoint_serialization_paths_witness:
  "(\<exists>d. serialize_checkpoint (sample_checkpoint (Present ''task-123'') Absent (PyEnum [])) = Inr d
        \<and> dict_get d ''task_id'' = Some (JStr ''task-123'')
        \<and> dict_get d ''checkpoint_type'' = Some (JStr ''approval''))
   \<and> dict_get (format_checkpoint (sample_checkpoint Absent (Present ''task-9'') PyNone)) ''plan_id''
        = Some (JStr ''task-9'')
   \<and> dict_get (format_checkpoint (sample_checkpoint Absent Absent PyNone)) ''plan_id'' = Some JNull"
proof -
  let ?a = "sample_checkpoint (Present ''task-123'') Absent (PyEnum [])"
  let ?b = "sample_checkpoint Absent (Present ''task-9'') PyNone"
  let ?c = "sample_checkpoint Absent Absent PyNone"
  have a: "cp_plan_id ?a = Present ''task-123''" "cp_checkpoint_type ?a \<in> {PyNone, PyStr [], PyEnum []}"
    by (simp_all add: sample_checkpoint_def)
  have b: "cp_plan_id ?b = Absent \<and> cp_task_id ?b = Present ''task-9''"
    by (simp add: sample_checkpoint_def)
  have c: "cp_plan_id ?c = Absent \<and> cp_task_id ?c = Absent"
    by (simp add: sample_checkpoint_def)
  from checkpoint_serialization_paths [of ?a "''task-123''"] a
  have 1: "\<exists>d. serialize_checkpoint ?a = Inr d
        \<and> dict_get d ''task_id'' = Some (JStr ''task-123'')
        \<and> dict_get d ''checkpoint_type'' = Some (JStr ''approval'')"
    by blast
  from checkpoint_serialization_paths [of ?b _ "''task-9''"] b
  have 2: "dict_get (format_checkpoint ?b) ''plan_id'' = Some (JStr ''task-9'')" by blast
  from checkpoint_serialization_paths [of ?c] c
  have 3: "dict_get (format_checkpoint ?c) ''plan_id'' = Some JNull" by blast
  show ?thesis using 1 2 3 by blast
qed

text \<open>
  C5 as stated fails on both paths: the status query's output has no
  \<^verbatim>\<open>checkpoint_type\<close>, and the inbox tool's serialiser raises on a checkpoint that has
  \<^verbatim>\<open>task_id\<close> but no \<^verbatim>\<open>plan_id\<close>.
\<close>

theorem checkpoint_serialization_gaps:
  "dict_get (format_checkpoint (sample_checkpoint (Present ''task-123'') Absent (PyEnum ''approval'')))
     ''checkpoint_type'' = None
   \<and> serialize_checkpoint (sample_checkpoint Absent (Present ''task-123'') (PyEnum ''approval''))
       = Inl (AttributeError ''plan_id'')"
  by (simp add: format_checkpoint_def dict_get_def serialize_checkpoint_def sample_checkpoint_def)

section \<open>The bounded wait\<close>

text \<open>
  C1. On any tick of the wait, whatever the deadline and whatever was seen before: if
  the fetch of that tick returns a snapshot whose canonical status is completed, failed,
  cancelled or checkpoint, the wait returns that snapshot, that status and
  \<^verbatim>\<open>timed_out=False\<close>; the world it leaves has that one fetch added and nothing after
  it, neither a fetch nor a sleep.
\<close>

theorem terminal_fetch_returns_at_once:
  assumes "fetch_outcome uc w (fetches w) tid = Inr (Some t)"
    and "status_value (task_status t) \<in> {''completed'', ''failed'', ''cancelled''} \<union> {''checkpoint''}"
  shows "wait_loop uc tid poll_interval deadline last_task last_status w =
           Some (Inr (Some t, status_value (task_status t), False),
                 w\<lparr>clock := clock w + of_nat (get_task_latency uc (fetches w)) / 1000,
                   trace := trace w @ [GetTask tid]\<rparr>)"
proof -
  have "status_value (task_status t) \<in> terminal_statuses"
    using assms(2) by (auto simp: terminal_statuses_def)
  then show ?thesis
    using assms(1)
    by (subst wait_loop.simps) (simp add: call_get_task_def escaping_def Let_def)
qed

text \<open>A first fetch that finds the task completed (status written in capitals).\<close>

theorem terminal_fetch_returns_at_once_witness:
  "fetch_outcome (sample_use_cases (Inr ''task-123'')
              (Inr (Some (sample_task ''user-123'' ''COMPLETED'' [''done'', ''done''] None))) [])
      world0 (fetches world0) ''task-123''
     = Inr (Some (sample_task ''user-123'' ''COMPLETED'' [''done'', ''done''] None))
   \<and> status_value (task_status (sample_task ''user-123'' ''COMPLETED'' [''done'', ''done''] None))
       \<in> {''completed'', ''failed'', ''cancelled''} \<union> {''checkpoint''}
   \<and> wait_loop (sample_use_cases (Inr ''task-123'')
              (Inr (Some (sample_task ''user-123'' ''COMPLETED'' [''done'', ''done''] None))) [])
         ''task-123'' 1 5 None ''planning'' world0
       = Some (Inr (Some (sample_task ''user-123'' ''COMPLETED'' [''done'', ''done''] None),
                    ''completed'', False),
               \<lparr>clock = 0, trace = [GetTask ''task-123''], interrupt = (\<lambda>n. None)\<rparr>)"
proof -
  let ?t = "sample_task ''user-123'' ''COMPLETED'' [''done'', ''done''] None"
  let ?uc = "sample_use_cases (Inr ''task-123'') (Inr (Some ?t)) []"
  have f: "fetch_outcome ?uc world0 (fetches world0) ''task-123'' = Inr (Some ?t)"
    by (simp add: fetch_outcome_def world0_def sample_use_cases_def)
  have st: "status_value (task_status ?t) = ''completed''" by code_simp
  then have s: "status_value (task_status ?t) \<in> {''completed'', ''failed'', ''cancelled''} \<union> {''checkpoint''}"
    by simp
  have w: "world0\<lparr>clock := clock world0 + of_nat (get_task_latency ?uc (fetches world0)) / 1000,
                  trace := trace world0 @ [GetTask ''task-123'']\<rparr>
             = \<lparr>clock = 0, trace = [GetTask ''task-123''], interrupt = (\<lambda>n. None)\<rparr>"
    by (simp add: world0_def sample_use_cases_def)
  from terminal_fetch_returns_at_once [OF f s, of 1 5 None "''planning''"]
  have "wait_loop ?uc ''task-123'' 1 5 None ''planning'' world0
       = Some (Inr (Some ?t, ''completed'', False),
               \<lparr>clock = 0, trace = [GetTask ''task-123''], interrupt = (\<lambda>n. None)\<rparr>)"
    by (simp only: w st)
  with f s show ?thesis by blast
qed

text \<open>
  Each tick that does not return moves the clock on by at least a hundredth of a second
  (the sleep is \<^verbatim>\<open>min(poll_interval, max(0.01, remaining))\<close> and the poll interval is at
  least 0.2), so the number of hundredths left to the deadline decreases. Neither a fetch
  nor a sleep changes which fetches are interrupted.
\<close>

lemma sleep_clock:
  "1 / 100 \<le> d \<Longrightarrow> clock (sleep d w) = clock w + d"
  by (simp add: sleep_def max_def)

lemma call_get_task_clock:
  "clock w \<le> clock (snd (call_get_task uc tid w))"
  by (simp add: call_get_task_def Let_def)

lemma call_get_task_fst:
  "fst (call_get_task uc tid w) = fetch_outcome uc w (fetches w) tid"
  by (simp add: call_get_task_def Let_def)




lemma measure_decreases:
  fixes c c' deadline :: rat
  assumes "c + 1 / 100 \<le> c'" "c < deadline"
  shows "nat \<lceil>(deadline - c') * 100\<rceil> < nat \<lceil>(deadline - c) * 100\<rceil>"
proof -
  have "(deadline - c') * 100 \<le> (deadline - c) * 100 - 1" using assms(1) by simp
  then have "\<lceil>(deadline - c') * 100\<rceil> \<le> \<lceil>(deadline - c) * 100 - 1\<rceil>"
    by (rule ceiling_mono)
  then have le: "\<lceil>(deadline - c') * 100\<rceil> \<le> \<lceil>(deadline - c) * 100\<rceil> - 1" by simp
  have "0 < (deadline - c) * 100" using assms(2) by simp
  then have "0 < \<lceil>(deadline - c) * 100\<rceil>" by simp
  with le show ?thesis by linarith
qed





text \<open>
  The wait ends whatever the backend answers, by returning or by raising: there is no
  endless wait.
\<close>

lemma wait_loop_returns:
  assumes poll: "1 / 100 \<le> poll_interval"
  shows "\<exists>r. wait_loop uc tid poll_interval deadline last_task last_status w = Some r"
proof (induction "nat \<lceil>(deadline - clock w) * 100\<rceil>" arbitrary: w last_task last_status
         rule: less_induct)
  case less
  obtain fetched w1 where cg: "call_get_task uc tid w = (fetched, w1)"
    by (cases "call_get_task uc tid w")
  have c1: "clock w \<le> clock w1" using call_get_task_clock [of w uc tid] by (simp add: cg)
  define tsk where "tsk = (case fetched of Inl exc \<Rightarrow> None | Inr t \<Rightarrow> t)"
  define lt where "lt = (case tsk of None \<Rightarrow> last_task | Some t \<Rightarrow> Some t)"
  define ls where "ls = (case tsk of None \<Rightarrow> last_status | Some t \<Rightarrow> status_value (task_status t))"
  show ?case
  proof (cases "escaping fetched \<noteq> None
                 \<or> (\<not> Option.is_none tsk \<and> ls \<in> terminal_statuses) \<or> deadline \<le> clock w1")
    case True
    then show ?thesis
      by (subst wait_loop.simps)
         (auto simp: cg Let_def tsk_def ls_def lt_def split: option.splits)
  next
    case False
    define d where "d = min poll_interval (max (1 / 100) (deadline - clock w1))"
    have d: "1 / 100 \<le> d" using poll by (simp add: d_def)
    define w2 where "w2 = sleep d w1"
    have c2: "clock w2 = clock w1 + d" unfolding w2_def using d by (rule sleep_clock)
    have step: "wait_loop uc tid poll_interval deadline last_task last_status w
                 = wait_loop uc tid poll_interval deadline lt ls w2"
      using False
      by (subst wait_loop.simps) (auto simp: cg Let_def w2_def d_def tsk_def ls_def lt_def)
    have "clock w + 1 / 100 \<le> clock w2" using c1 c2 d by simp
    moreover have "clock w < deadline" using False c1 by simp
    ultimately have "nat \<lceil>(deadline - clock w2) * 100\<rceil> < nat \<lceil>(deadline - clock w) * 100\<rceil>"
      by (rule measure_decreases)
    from less [OF this] show ?thesis by (simp add: step)
  qed
qed

lemma wait_for_terminal_status_returns:
  "\<exists>r. wait_for_terminal_status cfg uc tid timeout_seconds w = Some r"
proof -
  have "(1::rat) / 100 \<le> max (2 / 10) (INBOX_CREATE_TASK_WAIT_POLL_INTERVAL_SECONDS cfg)"
    by simp
  from wait_loop_returns [OF this]
  show ?thesis by (simp add: wait_for_terminal_status_def Let_def)
qed

section \<open>Creating a task without waiting\<close>







text \<open>
  Constraints sent as a string, with a file attached to the conversation: the item
  assignment raises a \<^verbatim>\<open>TypeError\<close> before the \<^verbatim>\<open>try\<close> block, out of \<^verbatim>\<open>execute\<close>.
\<close>

lemma string_constraints_raise:
  "map_option fst
     (create_task_execute sample_settings (\<lambda>s. None)
        (sample_providers (sample_use_cases (Inr ''task-123'') (Inr None) []))
        ((sample_args (Some (VBool False)) None)\<lparr>arg_constraints := Some (JStr ''quick'')\<rparr>)
        (sample_context\<lparr>cc_file_references := Some (JList [JStr ''report.pdf''])\<rparr>)
        no_globals world0)
     = Some (Inl (Exc (TypeError
          (CHR 0x27 # ''str'' @ CHR 0x27 # '' object does not support item assignment''))))"
  by code_simp

section \<open>Access to another user's task\<close>

lemma resolve_task_independent:
  "fst (resolve_providers pr a context g) = fst (resolve_providers pr b context g)"
  by (auto simp: resolve_providers_def Let_def split: prod.splits sum.splits if_splits)

lemma resolve_with_delegation:
  "sc_delegation_service context = Some d \<Longrightarrow>
     resolve_providers pr ic context g
       = (sc_task_use_cases context, sc_checkpoint_use_cases context, g)"
  by (simp add: resolve_providers_def Let_def)

lemma single_task_foreign:
  assumes "(\<exists>d. ds = Some d \<and> get_plan d pid = Inr (Some plan))
           \<or> (ds = None \<and> (\<exists>uc. tuc = Some uc \<and> get_task uc 0 pid = Inr (Some plan)))"
    and "task_user_id plan \<noteq> uid"
  shows "single_task pid uid ic ds tuc cuc = Inr (error_result ''Access denied to this task'')"
  using assms by (auto simp: single_task_def)

text \<open>
  C4, as amended. A status query with a plan id that names a task of another user,
  fetched through the delegation service or through the resolved task use-cases, fails
  with one fixed result: no data, no message, and the error text
  \<^verbatim>\<open>Access denied to this task\<close>. The result does not depend on the task, so it carries
  none of its fields.
\<close>

theorem foreign_task_denied:
  assumes "sc_user_id context = Some uid" and "uid \<noteq> []"
    and "sa_plan_id arguments = Some pid" and "pid \<noteq> []"
    and "(\<exists>d. sc_delegation_service context = Some d \<and> get_plan d pid = Inr (Some plan))
         \<or> (sc_delegation_service context = None
             \<and> (\<exists>uc. fst (resolve_providers pr ic context g) = Some uc
                      \<and> get_task uc 0 pid = Inr (Some plan)))"
    and "task_user_id plan \<noteq> uid"
  shows "fst (get_task_status_execute pr arguments context g)
           = \<lparr>success = False, data = None, message = None,
              error = Some ''Access denied to this task''\<rparr>"
proof -
  define ic' where "ic' = (case sa_include_checkpoints arguments of None \<Rightarrow> True | Some b \<Rightarrow> b)"
  obtain tuc cuc g2 where rp: "resolve_providers pr ic' context g = (tuc, cuc, g2)"
    by (cases "resolve_providers pr ic' context g")
  have tuc: "fst (resolve_providers pr ic context g) = tuc"
    using rp resolve_task_independent [of pr ic "context" g ic'] by simp
  have st: "single_task pid uid ic' (sc_delegation_service context) tuc cuc
              = Inr (error_result ''Access denied to this task'')"
  proof (rule single_task_foreign)
    show "(\<exists>d. sc_delegation_service context = Some d \<and> get_plan d pid = Inr (Some plan))
           \<or> (sc_delegation_service context = None
               \<and> (\<exists>uc. tuc = Some uc \<and> get_task uc 0 pid = Inr (Some plan)))"
      using assms(5) tuc by auto
    show "task_user_id plan \<noteq> uid" by (rule assms(6))
  qed
  have avail: "\<not> (Option.is_none (sc_delegation_service context) \<and> Option.is_none tuc)"
    using assms(5) tuc by (auto simp: Option.is_none_def)
  show ?thesis
    using assms(1-4) rp st avail
    by (simp add: get_task_status_execute_def Let_def str_truthy_def str_of_def ic'_def
          error_result_def)
qed

text \<open>A query of user-1 for a task that belongs to someone else.\<close>

theorem foreign_task_denied_witness:
  "sc_user_id (sample_status_context ''user-1'') = Some ''user-1''
   \<and> sa_plan_id (sample_status_args (Some ''task-123'') None) = Some ''task-123''
   \<and> sc_delegation_service (sample_status_context ''user-1'') = None
   \<and> fst (resolve_providers
            (sample_providers (sample_use_cases (Inr ''task-123'')
               (Inr (Some (sample_task ''someone-else'' ''executing'' [] None))) []))
            True (sample_status_context ''user-1'') no_globals)
       = Some (sample_use_cases (Inr ''task-123'')
               (Inr (Some (sample_task ''someone-else'' ''executing'' [] None))) [])
   \<and> task_user_id (sample_task ''someone-else'' ''executing'' [] None) \<noteq> ''user-1''
   \<and> fst (get_task_status_execute
            (sample_providers (sample_use_cases (Inr ''task-123'')
               (Inr (Some (sample_task ''someone-else'' ''executing'' [] None))) []))
            (sample_status_args (Some ''task-123'') None) (sample_status_context ''user-1'')
            no_globals)
       = \<lparr>success = False, data = None, message = None,
          error = Some ''Access denied to this task''\<rparr>"
proof -
  let ?t = "sample_task ''someone-else'' ''executing'' [] None"
  let ?uc = "sample_use_cases (Inr ''task-123'') (Inr (Some ?t)) []"
  let ?pr = "sample_providers ?uc"
  let ?c = "sample_status_context ''user-1''"
  let ?a = "sample_status_args (Some ''task-123'') None"
  have h1: "sc_user_id ?c = Some ''user-1''" by (simp add: sample_status_context_def)
  have h2: "''user-1'' \<noteq> []" by simp
  have h3: "sa_plan_id ?a = Some ''task-123''" by (simp add: sample_status_args_def)
  have h4: "''task-123'' \<noteq> []" by simp
  have d: "sc_delegation_service ?c = None" by (simp add: sample_status_context_def)
  have r: "fst (resolve_providers ?pr True ?c no_globals) = Some ?uc"
    by (simp add: resolve_providers_def sample_status_context_def get_task_use_cases_def
          get_checkpoint_use_cases_def sample_providers_def no_globals_def Let_def)
  have f: "get_task ?uc 0 ''task-123'' = Inr (Some ?t)" by (simp add: sample_use_cases_def)
  have h5: "(\<exists>d. sc_delegation_service ?c = Some d \<and> get_plan d ''task-123'' = Inr (Some ?t))
         \<or> (sc_delegation_service ?c = None
             \<and> (\<exists>uc. fst (resolve_providers ?pr True ?c no_globals) = Some uc
                      \<and> get_task uc 0 ''task-123'' = Inr (Some ?t)))"
    using d r f by blast
  have h6: "task_user_id ?t \<noteq> ''user-1''" by (simp add: sample_task_def)
  from foreign_task_denied [OF h1 h2 h3 h4 h5 h6] h1 h3 d r h6
  show ?thesis by blast
qed

text \<open>
  C4 as stated fails: the denial tells the caller that the task exists. The same query
  answers \<^verbatim>\<open>Task not found\<close> when no task has the id, and \<^verbatim>\<open>Access denied\<close> when
  another user's task has it.
\<close>

theorem denial_differs_from_not_found: "fst (get_task_status_execute
          (sample_providers (sample_use_cases (Inr ''task-123'')
             (Inr (Some (sample_task ''someone-else'' ''executing'' [] None))) []))
          (sample_status_args (Some ''task-123'') None) (sample_status_context ''user-1'')
          no_globals)
     = error_result ''Access denied to this task''
   \<and> fst (get_task_status_execute
          (sample_providers (sample_use_cases (Inr ''task-123'') (Inr None) []))
          (sample_status_args (Some ''task-123'') None) (sample_status_context ''user-1'')
          no_globals)
     = error_result ''Task not found: task-123''
   \<and> error_result ''Access denied to this task'' \<noteq> error_result ''Task not found: task-123''"
  by code_simp

section \<open>Listing mode\<close>

text \<open>
  With a user id and a usable provider, \<^verbatim>\<open>execute\<close> is one of the two modes applied to
  the resolved providers; the listing dictionary holds the counts of its three parts.
\<close>

lemma execute_pair:
  assumes "sc_user_id ctx = Some uid" and "uid \<noteq> []"
    and rp: "resolve_providers pr (wants_checkpoints arguments) ctx g = (tuc, cuc, g2)"
    and av: "\<not> (Option.is_none (sc_delegation_service ctx) \<and> Option.is_none tuc)"
  shows "get_task_status_execute pr arguments ctx g =
          (case (if str_truthy (sa_plan_id arguments)
                  then single_task (str_of (sa_plan_id arguments)) uid
                         (wants_checkpoints arguments) (sc_delegation_service ctx) tuc cuc
                  else list_all uid (wants_completed arguments) (wants_checkpoints arguments)
                         (limit_of arguments) (sc_delegation_service ctx) tuc cuc) of
             Inl exc \<Rightarrow> (error_result (''Failed to get task status: '' @ exc_str exc), g2)
           | Inr res \<Rightarrow> (res, g2))"
proof -
  have ut: "str_truthy (sc_user_id ctx)" using assms(1,2) by (simp add: str_truthy_def)
  have su: "str_of (sc_user_id ctx) = uid" using assms(1) by (simp add: str_of_def)
  have rp': "resolve_providers pr
       (case sa_include_checkpoints arguments of None \<Rightarrow> True | Some b \<Rightarrow> b) ctx g
       = (tuc, cuc, g2)"
    using rp by (simp add: wants_checkpoints_def)
  have av': "(Option.is_none (sc_delegation_service ctx) \<and> Option.is_none tuc) = False"
    using av by simp
  show ?thesis
    unfolding get_task_status_execute_def Let_def wants_checkpoints_def wants_completed_def
      limit_of_def
    by (simp only: ut su rp' av' not_True_eq_False if_False if_True prod.case not_not)
qed

lemma execute_unfold:
  assumes "sc_user_id ctx = Some uid" and "uid \<noteq> []"
    and "resolve_providers pr (wants_checkpoints arguments) ctx g = (tuc, cuc, g2)"
    and "\<not> (Option.is_none (sc_delegation_service ctx) \<and> Option.is_none tuc)"
  shows "fst (get_task_status_execute pr arguments ctx g) =
           (case (if str_truthy (sa_plan_id arguments)
                  then single_task (str_of (sa_plan_id arguments)) uid
                         (wants_checkpoints arguments) (sc_delegation_service ctx) tuc cuc
                  else list_all uid (wants_completed arguments) (wants_checkpoints arguments)
                         (limit_of arguments) (sc_delegation_service ctx) tuc cuc) of
              Inl exc \<Rightarrow> error_result (''Failed to get task status: '' @ exc_str exc)
            | Inr res \<Rightarrow> res)"
  unfolding execute_pair [OF assms]
  by (cases "str_truthy (sa_plan_id arguments)") (simp_all split: sum.splits)

lemma dict_get_set:
  "dict_get (dict_set k v d) k' = (if k' = k then Some v else dict_get d k')"
  by (simp add: dict_get_def dict_set_def update_conv')

lemma active_status_values_eq:
  "active_status_values = {''planning'', ''ready'', ''executing'', ''checkpoint''}"
proof -
  have "status_value TaskStatus_PLANNING = ''planning''" by code_simp
  moreover have "status_value TaskStatus_READY = ''ready''" by code_simp
  moreover have "status_value TaskStatus_EXECUTING = ''executing''" by code_simp
  moreover have "status_value TaskStatus_CHECKPOINT = ''checkpoint''" by code_simp
  ultimately show ?thesis by (simp add: active_status_values_def)
qed

lemma terminal_status_values_eq:
  "terminal_status_values = {''completed'', ''failed'', ''cancelled''}"
proof -
  have "status_value TaskStatus_COMPLETED = ''completed''" by code_simp
  moreover have "status_value TaskStatus_FAILED = ''failed''" by code_simp
  moreover have "status_value TaskStatus_CANCELLED = ''cancelled''" by code_simp
  ultimately show ?thesis by (simp add: terminal_status_values_def)
qed

lemma filter_active:
  "filter (\<lambda>p. status_value (task_status p) \<in> active_status_values) plans
     = filter is_active plans"
  by (simp add: active_status_values_eq is_active_def [abs_def])

lemma filter_terminal:
  "filter (\<lambda>p. status_value (task_status p) \<in> terminal_status_values) plans
     = filter is_terminal plans"
  by (simp add: terminal_status_values_eq is_terminal_def [abs_def])

lemma listing_dict_fields:
  fixes act fin :: "task list" and pend :: "dict list"
  assumes rd0_def: "rd0 = [(''active_tasks'', JList (map (\<lambda>p. JDict (format_plan p)) act)),
                   (''active_count'', JInt (int (length act)))]"
    and rd1_def: "rd1 = (if ic then
                     dict_set ''completed_count'' (JInt (int (length fin)))
                       (dict_set ''completed_tasks''
                          (JList (map (\<lambda>p. JDict (format_plan p)) fin)) rd0)
                   else rd0)"
    and rd_def: "rd = (if icp then
                    dict_set ''checkpoint_count'' (JInt (int (length pend)))
                      (dict_set ''pending_checkpoints'' (JList (map JDict pend)) rd1)
                  else rd1)"
  shows "dict_get rd ''active_count'' = Some (JInt (int (length act)))"
    and "ic \<Longrightarrow> dict_get rd ''completed_tasks''
                   = Some (JList (map (\<lambda>p. JDict (format_plan p)) fin))"
    and "ic \<Longrightarrow> dict_get rd ''completed_count'' = Some (JInt (int (length fin)))"
    and "\<not> ic \<Longrightarrow> dict_get rd ''completed_tasks'' = None"
    and "\<not> ic \<Longrightarrow> dict_get rd ''completed_count'' = None"
    and "icp \<Longrightarrow> dict_get rd ''pending_checkpoints'' = Some (JList (map JDict pend))"
    and "icp \<Longrightarrow> dict_get rd ''checkpoint_count'' = Some (JInt (int (length pend)))"
proof -
  have g0: "dict_get rd0 k = (if k = ''active_tasks''
              then Some (JList (map (\<lambda>p. JDict (format_plan p)) act))
              else if k = ''active_count'' then Some (JInt (int (length act))) else None)" for k
    by (simp add: rd0_def dict_get_def)
  show "dict_get rd ''active_count'' = Some (JInt (int (length act)))"
    by (simp add: rd_def rd1_def dict_get_set g0)
  show "ic \<Longrightarrow> dict_get rd ''completed_tasks''
                   = Some (JList (map (\<lambda>p. JDict (format_plan p)) fin))"
    by (simp add: rd_def rd1_def dict_get_set g0)
  show "ic \<Longrightarrow> dict_get rd ''completed_count'' = Some (JInt (int (length fin)))"
    by (simp add: rd_def rd1_def dict_get_set g0)
  show "\<not> ic \<Longrightarrow> dict_get rd ''completed_tasks'' = None"
    by (simp add: rd_def rd1_def dict_get_set g0)
  show "\<not> ic \<Longrightarrow> dict_get rd ''completed_count'' = None"
    by (simp add: rd_def rd1_def dict_get_set g0)
  show "icp \<Longrightarrow> dict_get rd ''pending_checkpoints'' = Some (JList (map JDict pend))"
    by (simp add: rd_def rd1_def dict_get_set g0)
  show "icp \<Longrightarrow> dict_get rd ''checkpoint_count'' = Some (JInt (int (length pend)))"
    by (simp add: rd_def rd1_def dict_get_set g0)
qed


lemma terminal_members:
  "\<forall>p \<in> set (take n (filter is_terminal plans)). is_terminal p"
proof
  fix p assume "p \<in> set (take n (filter is_terminal plans))"
  then have "p \<in> set (filter is_terminal plans)" by (rule in_set_takeD)
  then show "is_terminal p" by simp
qed

lemma list_all_fields:
  assumes res: "list_all uid ic icp limit ds tuc cuc = Inr res"
    and fetched: "(\<exists>d. ds = Some d \<and> get_user_plans d uid limit = Inr plans)
           \<or> (ds = None \<and> (\<exists>uc. tuc = Some uc \<and> list_tasks uc uid limit = Inr plans))"
  shows "\<exists>dd. data res = Some dd
     \<and> dict_get dd ''active_count'' = Some (JInt (int (length (filter is_active plans))))
     \<and> (ic \<longrightarrow>
           dict_get dd ''completed_tasks'' =
             Some (JList (map (\<lambda>p. JDict (format_plan p)) (take 5 (filter is_terminal plans))))
           \<and> dict_get dd ''completed_count'' =
             Some (JInt (int (length (take 5 (filter is_terminal plans)))))
           \<and> length (take 5 (filter is_terminal plans)) \<le> 5
           \<and> (\<forall>p \<in> set (take 5 (filter is_terminal plans)). is_terminal p))
     \<and> (\<not> ic \<longrightarrow>
           dict_get dd ''completed_tasks'' = None \<and> dict_get dd ''completed_count'' = None)"
    and "success res"
    and "icp \<and> ds = None \<and> cuc = None \<longrightarrow>
           (\<exists>dd. data res = Some dd
              \<and> dict_get dd ''pending_checkpoints'' = Some (JList [])
              \<and> dict_get dd ''checkpoint_count'' = Some (JInt 0))"
proof -
  have plans: "(case ds of
              Some d \<Rightarrow> get_user_plans d uid limit
            | None \<Rightarrow>
                (case tuc of
                   Some uc \<Rightarrow> list_tasks uc uid limit
                 | None \<Rightarrow> Inl (AttributeError ''list_tasks''))) = Inr plans"
    using fetched by auto
  define cpx where "cpx = (if icp then
                      (case (case ds of
                               Some d \<Rightarrow> get_pending_checkpoints d uid
                             | None \<Rightarrow>
                                 (case cuc of
                                    Some c \<Rightarrow> list_pending c uid
                                  | None \<Rightarrow> Inr [])) of
                         Inl exc \<Rightarrow> Inl exc
                       | Inr checkpoints \<Rightarrow> Inr (map format_checkpoint checkpoints))
                    else Inr [])"
  have none: "cpx = Inr []" if "icp \<and> ds = None \<and> cuc = None"
    using that by (simp add: cpx_def)
  have "\<exists>pend. cpx = Inr pend"
  proof (cases cpx)
    case (Inl exc)
    then have "list_all uid ic icp limit ds tuc cuc = Inl exc"
      unfolding list_all_def plans cpx_def [symmetric] by (simp add: Let_def)
    with res show ?thesis by simp
  next
    case (Inr pend)
    then show ?thesis by simp
  qed
  then obtain pend where Inr: "cpx = Inr pend" ..
  define act where "act = filter is_active plans"
  define fin where "fin = take 5 (filter is_terminal plans)"
  define rd0 where "rd0 = [(''active_tasks'', JList (map (\<lambda>p. JDict (format_plan p)) act)),
                   (''active_count'', JInt (int (length act)))]"
  define rd1 where "rd1 = (if ic then
                     dict_set ''completed_count'' (JInt (int (length fin)))
                       (dict_set ''completed_tasks''
                          (JList (map (\<lambda>p. JDict (format_plan p)) fin)) rd0)
                   else rd0)"
  define rd where "rd = (if icp then
                    dict_set ''checkpoint_count'' (JInt (int (length pend)))
                      (dict_set ''pending_checkpoints'' (JList (map JDict pend)) rd1)
                  else rd1)"
  have shape: "success res \<and> data res = Some rd"
    using res unfolding list_all_def plans cpx_def [symmetric] Inr
    by (cases ic; cases icp)
       (auto simp: Let_def ok_result_def filter_active filter_terminal
          rd_def rd1_def rd0_def act_def fin_def)
  note f = listing_dict_fields [OF rd0_def rd1_def rd_def]
  show "success res" using shape by simp
  have len: "length fin \<le> 5" by (simp add: fin_def)
  have mem: "\<forall>p \<in> set fin. is_terminal p" unfolding fin_def by (rule terminal_members)
  have "data res = Some rd
     \<and> dict_get rd ''active_count'' = Some (JInt (int (length act)))
     \<and> (ic \<longrightarrow>
           dict_get rd ''completed_tasks'' = Some (JList (map (\<lambda>p. JDict (format_plan p)) fin))
           \<and> dict_get rd ''completed_count'' = Some (JInt (int (length fin)))
           \<and> length fin \<le> 5
           \<and> (\<forall>p \<in> set fin. is_terminal p))
     \<and> (\<not> ic \<longrightarrow>
           dict_get rd ''completed_tasks'' = None \<and> dict_get rd ''completed_count'' = None)"
    using shape f(1-5) len mem by blast
  then show "\<exists>dd. data res = Some dd
     \<and> dict_get dd ''active_count'' = Some (JInt (int (length (filter is_active plans))))
     \<and> (ic \<longrightarrow>
           dict_get dd ''completed_tasks'' =
             Some (JList (map (\<lambda>p. JDict (format_plan p)) (take 5 (filter is_terminal plans))))
           \<and> dict_get dd ''completed_count'' =
             Some (JInt (int (length (take 5 (filter is_terminal plans)))))
           \<and> length (take 5 (filter is_terminal plans)) \<le> 5
           \<and> (\<forall>p \<in> set (take 5 (filter is_terminal plans)). is_terminal p))
     \<and> (\<not> ic \<longrightarrow>
           dict_get dd ''completed_tasks'' = None \<and> dict_get dd ''completed_count'' = None)"
    unfolding act_def fin_def by (rule exI [of _ rd])
  show "icp \<and> ds = None \<and> cuc = None \<longrightarrow>
           (\<exists>dd. data res = Some dd
              \<and> dict_get dd ''pending_checkpoints'' = Some (JList [])
              \<and> dict_get dd ''checkpoint_count'' = Some (JInt 0))"
  proof
    assume a: "icp \<and> ds = None \<and> cuc = None"
    then have "pend = []" using none Inr by simp
    then have "dict_get rd ''pending_checkpoints'' = Some (JList [])"
         "dict_get rd ''checkpoint_count'' = Some (JInt 0)"
      using f(6,7) a by simp_all
    then show "\<exists>dd. data res = Some dd
              \<and> dict_get dd ''pending_checkpoints'' = Some (JList [])
              \<and> dict_get dd ''checkpoint_count'' = Some (JInt 0)"
      using shape by blast
  qed
qed

text \<open>
  C7. In listing mode (no plan id), when the call succeeds on a fetched task list:
  \<^verbatim>\<open>active_count\<close> is the number of fetched tasks whose canonical status is planning,
  ready, executing or checkpoint; when completed tasks are requested,
  \<^verbatim>\<open>completed_tasks\<close> holds the first five, at most, of the fetched tasks whose canonical
  status is completed, failed or cancelled, and \<^verbatim>\<open>completed_count\<close> their number;
  when they are not requested, the result has neither key.
\<close>

theorem listing_counts:
  assumes "sc_user_id ctx = Some uid" and "uid \<noteq> []"
    and "\<not> str_truthy (sa_plan_id arguments)"
    and "(\<exists>d. sc_delegation_service ctx = Some d
              \<and> get_user_plans d uid (limit_of arguments) = Inr plans)
         \<or> (sc_delegation_service ctx = None
             \<and> (\<exists>uc. fst (resolve_providers pr ic ctx g) = Some uc
                      \<and> list_tasks uc uid (limit_of arguments) = Inr plans))"
    and "success (fst (get_task_status_execute pr arguments ctx g))"
  shows "\<exists>dd. data (fst (get_task_status_execute pr arguments ctx g)) = Some dd
     \<and> dict_get dd ''active_count'' = Some (JInt (int (length (filter is_active plans))))
     \<and> (wants_completed arguments \<longrightarrow>
           dict_get dd ''completed_tasks'' =
             Some (JList (map (\<lambda>p. JDict (format_plan p)) (take 5 (filter is_terminal plans))))
           \<and> dict_get dd ''completed_count'' =
             Some (JInt (int (length (take 5 (filter is_terminal plans)))))
           \<and> length (take 5 (filter is_terminal plans)) \<le> 5
           \<and> (\<forall>p \<in> set (take 5 (filter is_terminal plans)). is_terminal p))
     \<and> (\<not> wants_completed arguments \<longrightarrow>
           dict_get dd ''completed_tasks'' = None \<and> dict_get dd ''completed_count'' = None)"
proof -
  obtain tuc cuc g2 where
    rp: "resolve_providers pr (wants_checkpoints arguments) ctx g = (tuc, cuc, g2)"
    by (cases "resolve_providers pr (wants_checkpoints arguments) ctx g")
  have tuc: "fst (resolve_providers pr ic ctx g) = tuc"
    using rp resolve_task_independent [of pr ic ctx g "wants_checkpoints arguments"] by simp
  have fetched: "(\<exists>d. sc_delegation_service ctx = Some d
                    \<and> get_user_plans d uid (limit_of arguments) = Inr plans)
           \<or> (sc_delegation_service ctx = None
               \<and> (\<exists>uc. tuc = Some uc \<and> list_tasks uc uid (limit_of arguments) = Inr plans))"
    using assms(4) unfolding tuc .
  have avail: "\<not> (Option.is_none (sc_delegation_service ctx) \<and> Option.is_none tuc)"
    using fetched by (auto simp: Option.is_none_def)
  define la where "la = list_all uid (wants_completed arguments) (wants_checkpoints arguments)
                         (limit_of arguments) (sc_delegation_service ctx) tuc cuc"
  have ex: "fst (get_task_status_execute pr arguments ctx g) =
           (case la of
              Inl exc \<Rightarrow> error_result (''Failed to get task status: '' @ exc_str exc)
            | Inr res \<Rightarrow> res)"
    unfolding execute_unfold [OF assms(1,2) rp avail] la_def using assms(3) by simp
  obtain res where la: "la = Inr res"
    using assms(5) unfolding ex by (cases la) (simp_all add: error_result_def)
  have r: "fst (get_task_status_execute pr arguments ctx g) = res" by (simp add: ex la)
  have la': "list_all uid (wants_completed arguments) (wants_checkpoints arguments)
                (limit_of arguments) (sc_delegation_service ctx) tuc cuc = Inr res"
    using la unfolding la_def .
  show ?thesis
    unfolding r by (rule list_all_fields(1) [OF la' fetched])
qed

text \<open>The listing of the unit test: one planning and one completed task.\<close>

theorem listing_counts_witness:
  "sc_user_id (sample_status_context ''user-1'') = Some ''user-1''
   \<and> \<not> str_truthy (sa_plan_id (sample_status_args None (Some True)))
   \<and> success (fst (get_task_status_execute
        (sample_providers (sample_use_cases (Inr ''task-123'') (Inr None)
           [sample_task ''user-1'' ''planning'' [''pending''] (Some (Inr 50)),
            sample_task ''user-1'' ''completed'' [''done''] (Some (Inr 50))]))
        (sample_status_args None (Some True)) (sample_status_context ''user-1'') no_globals))
   \<and> (\<exists>dd. data (fst (get_task_status_execute
        (sample_providers (sample_use_cases (Inr ''task-123'') (Inr None)
           [sample_task ''user-1'' ''planning'' [''pending''] (Some (Inr 50)),
            sample_task ''user-1'' ''completed'' [''done''] (Some (Inr 50))]))
        (sample_status_args None (Some True)) (sample_status_context ''user-1'') no_globals))
          = Some dd
        \<and> dict_get dd ''active_count'' = Some (JInt 1)
        \<and> dict_get dd ''completed_count'' = Some (JInt 1))"
proof -
  let ?plans = "[sample_task ''user-1'' ''planning'' [''pending''] (Some (Inr 50)),
            sample_task ''user-1'' ''completed'' [''done''] (Some (Inr 50))]"
  let ?uc = "sample_use_cases (Inr ''task-123'') (Inr None) ?plans"
  let ?pr = "sample_providers ?uc"
  let ?c = "sample_status_context ''user-1''"
  let ?a = "sample_status_args None (Some True)"
  have h1: "sc_user_id ?c = Some ''user-1''" by (simp add: sample_status_context_def)
  have h2: "''user-1'' \<noteq> []" by simp
  have h3: "\<not> str_truthy (sa_plan_id ?a)"
    by (simp add: sample_status_args_def str_truthy_def)
  have d: "sc_delegation_service ?c = None" by (simp add: sample_status_context_def)
  have r: "fst (resolve_providers ?pr True ?c no_globals) = Some ?uc"
    by (simp add: resolve_providers_def sample_status_context_def get_task_use_cases_def
          get_checkpoint_use_cases_def sample_providers_def no_globals_def Let_def)
  have l: "list_tasks ?uc ''user-1'' (limit_of ?a) = Inr ?plans"
    by (simp add: sample_use_cases_def)
  have h4: "(\<exists>d. sc_delegation_service ?c = Some d
              \<and> get_user_plans d ''user-1'' (limit_of ?a) = Inr ?plans)
         \<or> (sc_delegation_service ?c = None
             \<and> (\<exists>uc. fst (resolve_providers ?pr True ?c no_globals) = Some uc
                      \<and> list_tasks uc ''user-1'' (limit_of ?a) = Inr ?plans))"
    using d r l by blast
  have h5: "success (fst (get_task_status_execute ?pr ?a ?c no_globals))" by code_simp
  have w: "wants_completed ?a" by (simp add: wants_completed_def sample_status_args_def)
  have n1: "int (length (filter is_active ?plans)) = 1" by code_simp
  have n2: "int (length (take 5 (filter is_terminal ?plans))) = 1" by code_simp
  from listing_counts [OF h1 h2 h3 h4 h5] w
  have "\<exists>dd. data (fst (get_task_status_execute ?pr ?a ?c no_globals)) = Some dd
        \<and> dict_get dd ''active_count'' = Some (JInt 1)
        \<and> dict_get dd ''completed_count'' = Some (JInt 1)"
    unfolding n1 n2 by blast
  with h1 h3 h5 show ?thesis by blast
qed

section \<open>Unavailable providers\<close>

lemma execute_unavailable:
  assumes rp: "resolve_providers pr (wants_checkpoints arguments) ctx g = (None, cuc, g2)"
    and ds: "sc_delegation_service ctx = None"
  shows "\<not> success (fst (get_task_status_execute pr arguments ctx g))"
proof (cases "str_truthy (sc_user_id ctx)")
  case False
  then show ?thesis
    unfolding get_task_status_execute_def Let_def
    by (simp only: if_True not_True_eq_False not_not fst_conv) (simp add: error_result_def)
next
  case True
  have rp': "resolve_providers pr
       (case sa_include_checkpoints arguments of None \<Rightarrow> True | Some b \<Rightarrow> b) ctx g
       = (None, cuc, g2)"
    using rp by (simp add: wants_checkpoints_def)
  have av: "(Option.is_none (sc_delegation_service ctx) \<and> Option.is_none (None :: task_use_cases option)) = True"
    using ds by simp
  have "get_task_status_execute pr arguments ctx g
          = (error_result ''Delegation service not available'', g2)"
    unfolding get_task_status_execute_def Let_def
    by (simp only: True rp' av not_True_eq_False if_False if_True prod.case not_not)
  then show ?thesis by (simp add: error_result_def)
qed

lemma resolve_with_context:
  "resolve_providers pr ic (ctx\<lparr>sc_task_use_cases := Some uc, sc_checkpoint_use_cases := Some cuc\<rparr>) g
     = (Some uc, Some cuc, g)"
  by (simp add: resolve_providers_def Let_def)

lemma single_task_no_checkpoints:
  "single_task pid uid ic None tuc None = single_task pid uid ic None tuc (Some no_pending)"
  by (simp add: single_task_def no_pending_def cong: sum.case_cong option.case_cong if_cong)

lemma list_all_no_checkpoints:
  "list_all uid inc icp limit None tuc None = list_all uid inc icp limit None tuc (Some no_pending)"
  by (simp add: list_all_def no_pending_def cong: sum.case_cong option.case_cong if_cong)

lemma list_all_succeeds:
  assumes "list_tasks uc uid limit = Inr plans"
  shows "\<exists>res. list_all uid inc icp limit None (Some uc) None = Inr res"
  using assms by (cases icp) (simp_all add: list_all_def Let_def)

lemma single_task_own:
  assumes "get_task uc 0 pid = Inr (Some plan)" and "task_user_id plan = uid"
  shows "\<exists>msg. single_task pid uid ic None (Some uc) None = Inr (ok_result (format_plan plan) msg)"
  using assms by (auto simp: single_task_def Let_def)

text \<open>
  C8. If the context has no delegation service and provider resolution ends without task
  use-cases, the call fails. If a user id is present and resolution ends with task
  use-cases but without checkpoint use-cases (the factory raised), the call gives the
  very result it gives when served by a checkpoint store with nothing pending: in
  listing mode, once the tasks are listed, it succeeds, with an empty
  \<^verbatim>\<open>pending_checkpoints\<close> list and a \<^verbatim>\<open>checkpoint_count\<close> of 0 when checkpoints were
  requested; in single-task mode, for a task of the caller, it succeeds with the
  formatted task and no checkpoint entry.
\<close>

theorem checkpoint_provider_optional:
  "(sc_delegation_service ctx = None \<and> fst (resolve_providers pr ic ctx g) = None \<longrightarrow>
      \<not> success (fst (get_task_status_execute pr arguments ctx g)))
   \<and> (sc_user_id ctx = Some uid \<and> uid \<noteq> [] \<and> sc_delegation_service ctx = None
        \<and> resolve_providers pr (wants_checkpoints arguments) ctx g = (Some uc, None, g2) \<longrightarrow>
        fst (get_task_status_execute pr arguments ctx g)
          = fst (get_task_status_execute pr arguments
                   (ctx\<lparr>sc_task_use_cases := Some uc, sc_checkpoint_use_cases := Some no_pending\<rparr>) g)
        \<and> (\<not> str_truthy (sa_plan_id arguments)
             \<and> list_tasks uc uid (limit_of arguments) = Inr plans \<longrightarrow>
             success (fst (get_task_status_execute pr arguments ctx g))
             \<and> (wants_checkpoints arguments \<longrightarrow>
                  (\<exists>dd. data (fst (get_task_status_execute pr arguments ctx g)) = Some dd
                     \<and> dict_get dd ''pending_checkpoints'' = Some (JList [])
                     \<and> dict_get dd ''checkpoint_count'' = Some (JInt 0))))
        \<and> (sa_plan_id arguments = Some pid \<and> pid \<noteq> []
             \<and> get_task uc 0 pid = Inr (Some plan) \<and> task_user_id plan = uid \<longrightarrow>
             success (fst (get_task_status_execute pr arguments ctx g))
             \<and> data (fst (get_task_status_execute pr arguments ctx g)) = Some (format_plan plan)))"
proof (intro conjI impI)
  assume a: "sc_delegation_service ctx = None \<and> fst (resolve_providers pr ic ctx g) = None"
  obtain tuc cuc g' where
    rp: "resolve_providers pr (wants_checkpoints arguments) ctx g = (tuc, cuc, g')"
    by (cases "resolve_providers pr (wants_checkpoints arguments) ctx g")
  have "tuc = None"
    using rp a resolve_task_independent [of pr ic ctx g "wants_checkpoints arguments"] by simp
  with rp a show "\<not> success (fst (get_task_status_execute pr arguments ctx g))"
    by (intro execute_unavailable) simp_all
next
  assume a: "sc_user_id ctx = Some uid \<and> uid \<noteq> [] \<and> sc_delegation_service ctx = None
        \<and> resolve_providers pr (wants_checkpoints arguments) ctx g = (Some uc, None, g2)"
  let ?ctx' = "ctx\<lparr>sc_task_use_cases := Some uc, sc_checkpoint_use_cases := Some no_pending\<rparr>"
  have uid: "sc_user_id ctx = Some uid" "uid \<noteq> []" and ds: "sc_delegation_service ctx = None"
    and rp: "resolve_providers pr (wants_checkpoints arguments) ctx g = (Some uc, None, g2)"
    using a by simp_all
  have av: "\<not> (Option.is_none (sc_delegation_service ctx) \<and> Option.is_none (Some uc))"
    by simp
  note e1 = execute_unfold [OF uid rp av, unfolded ds]
  have uid': "sc_user_id ?ctx' = Some uid" using uid by simp
  have ds': "sc_delegation_service ?ctx' = None" using ds by simp
  have av': "\<not> (Option.is_none (sc_delegation_service ?ctx') \<and> Option.is_none (Some uc))"
    by simp
  note e2 = execute_unfold [OF uid' uid(2) resolve_with_context av', unfolded ds']
  show "fst (get_task_status_execute pr arguments ctx g)
          = fst (get_task_status_execute pr arguments ?ctx' g)"
    unfolding e1 e2 single_task_no_checkpoints [symmetric] list_all_no_checkpoints [symmetric]
    by (rule refl)
  {
    assume b: "\<not> str_truthy (sa_plan_id arguments)
             \<and> list_tasks uc uid (limit_of arguments) = Inr plans"
    obtain res where res: "list_all uid (wants_completed arguments) (wants_checkpoints arguments)
                  (limit_of arguments) None (Some uc) None = Inr res"
      using list_all_succeeds b by blast
    have r: "fst (get_task_status_execute pr arguments ctx g) = res"
      unfolding e1 using b res by simp
    have fetched: "(\<exists>d. (None :: delegation_service option) = Some d
                      \<and> get_user_plans d uid (limit_of arguments) = Inr plans)
           \<or> ((None :: delegation_service option) = None
               \<and> (\<exists>uc'. Some uc = Some uc' \<and> list_tasks uc' uid (limit_of arguments) = Inr plans))"
      using b by simp
    note f = list_all_fields(2,3) [OF res fetched]
    show "success (fst (get_task_status_execute pr arguments ctx g))"
      unfolding r by (rule f(1))
    {
      assume "wants_checkpoints arguments"
      then show "\<exists>dd. data (fst (get_task_status_execute pr arguments ctx g)) = Some dd
                     \<and> dict_get dd ''pending_checkpoints'' = Some (JList [])
                     \<and> dict_get dd ''checkpoint_count'' = Some (JInt 0)"
        unfolding r using f(2) by simp
    }
  }
  {
    assume c: "sa_plan_id arguments = Some pid \<and> pid \<noteq> []
             \<and> get_task uc 0 pid = Inr (Some plan) \<and> task_user_id plan = uid"
    then obtain msg where st: "single_task pid uid (wants_checkpoints arguments) None (Some uc) None
                        = Inr (ok_result (format_plan plan) msg)"
      using single_task_own by blast
    have r: "fst (get_task_status_execute pr arguments ctx g) = ok_result (format_plan plan) msg"
      unfolding e1 using c st by (simp add: str_truthy_def str_of_def)
    show "success (fst (get_task_status_execute pr arguments ctx g))"
      unfolding r by (simp add: ok_result_def)
    show "data (fst (get_task_status_execute pr arguments ctx g)) = Some (format_plan plan)"
      unfolding r by (simp add: ok_result_def)
  }
qed

text \<open>
  Both factories failing; then a task store with one task of the caller and a failing
  checkpoint factory, queried in listing mode and for the single task.
\<close>

theorem checkpoint_provider_optional_witness:
  "sc_delegation_service (sample_status_context ''user-1'') = None
   \<and> fst (resolve_providers broken_providers True (sample_status_context ''user-1'') no_globals) = None
   \<and> \<not> success (fst (get_task_status_execute broken_providers (sample_status_args None None)
                        (sample_status_context ''user-1'') no_globals))
   \<and> resolve_providers
         (sample_providers (sample_use_cases (Inr ''task-123'')
            (Inr (Some (sample_task ''user-1'' ''executing'' [''done''] None)))
            [sample_task ''user-1'' ''executing'' [''done''] None]))
         True (sample_status_context ''user-1'') no_globals
       = (Some (sample_use_cases (Inr ''task-123'')
            (Inr (Some (sample_task ''user-1'' ''executing'' [''done''] None)))
            [sample_task ''user-1'' ''executing'' [''done''] None]),
          None,
          no_globals\<lparr>g_task_use_cases := Some (sample_use_cases (Inr ''task-123'')
            (Inr (Some (sample_task ''user-1'' ''executing'' [''done''] None)))
            [sample_task ''user-1'' ''executing'' [''done''] None])\<rparr>)
   \<and> success (fst (get_task_status_execute
         (sample_providers (sample_use_cases (Inr ''task-123'')
            (Inr (Some (sample_task ''user-1'' ''executing'' [''done''] None)))
            [sample_task ''user-1'' ''executing'' [''done''] None]))
         (sample_status_args None None) (sample_status_context ''user-1'') no_globals))
   \<and> (\<exists>dd. data (fst (get_task_status_execute
         (sample_providers (sample_use_cases (Inr ''task-123'')
            (Inr (Some (sample_task ''user-1'' ''executing'' [''done''] None)))
            [sample_task ''user-1'' ''executing'' [''done''] None]))
         (sample_status_args None None) (sample_status_context ''user-1'') no_globals)) = Some dd
        \<and> dict_get dd ''pending_checkpoints'' = Some (JList [])
        \<and> dict_get dd ''checkpoint_count'' = Some (JInt 0))
   \<and> data (fst (get_task_status_execute
         (sample_providers (sample_use_cases (Inr ''task-123'')
            (Inr (Some (sample_task ''user-1'' ''executing'' [''done''] None)))
            [sample_task ''user-1'' ''executing'' [''done''] None]))
         (sample_status_args (Some ''task-123'') None) (sample_status_context ''user-1'')
         no_globals))
       = Some (format_plan (sample_task ''user-1'' ''executing'' [''done''] None))"
proof -
  let ?t = "sample_task ''user-1'' ''executing'' [''done''] None"
  let ?uc = "sample_use_cases (Inr ''task-123'') (Inr (Some ?t)) [?t]"
  let ?pr = "sample_providers ?uc"
  let ?c = "sample_status_context ''user-1''"
  let ?l = "sample_status_args None None"
  let ?s = "sample_status_args (Some ''task-123'') None"
  let ?g2 = "no_globals\<lparr>g_task_use_cases := Some ?uc\<rparr>"
  have d: "sc_delegation_service ?c = None" by (simp add: sample_status_context_def)
  have u: "sc_user_id ?c = Some ''user-1''" "''user-1'' \<noteq> []"
    by (simp_all add: sample_status_context_def)
  have b: "fst (resolve_providers broken_providers True ?c no_globals) = None"
    by (simp add: resolve_providers_def sample_status_context_def get_task_use_cases_def
          get_checkpoint_use_cases_def broken_providers_def no_globals_def Let_def)
  have r: "resolve_providers ?pr True ?c no_globals = (Some ?uc, None, ?g2)"
    by (simp add: resolve_providers_def sample_status_context_def get_task_use_cases_def
          get_checkpoint_use_cases_def sample_providers_def no_globals_def Let_def)
  have wl: "wants_checkpoints ?l" and ws: "wants_checkpoints ?s"
    by (simp_all add: wants_checkpoints_def sample_status_args_def)
  have rl: "resolve_providers ?pr (wants_checkpoints ?l) ?c no_globals = (Some ?uc, None, ?g2)"
    using r wl by simp
  have rs: "resolve_providers ?pr (wants_checkpoints ?s) ?c no_globals = (Some ?uc, None, ?g2)"
    using r ws by simp
  have l1: "\<not> str_truthy (sa_plan_id ?l)" by (simp add: sample_status_args_def str_truthy_def)
  have l2: "list_tasks ?uc ''user-1'' (limit_of ?l) = Inr [?t]" by (simp add: sample_use_cases_def)
  have s1: "sa_plan_id ?s = Some ''task-123''" "''task-123'' \<noteq> []"
    by (simp_all add: sample_status_args_def)
  have s2: "get_task ?uc 0 ''task-123'' = Inr (Some ?t)" by (simp add: sample_use_cases_def)
  have s3: "task_user_id ?t = ''user-1''" by (simp add: sample_task_def)
  from checkpoint_provider_optional [where ctx = ?c and pr = broken_providers and ic = True
         and g = no_globals and arguments = ?l] d b
  have 1: "\<not> success (fst (get_task_status_execute broken_providers ?l ?c no_globals))"
    by blast
  from checkpoint_provider_optional [where ctx = ?c and pr = ?pr and g = no_globals
         and arguments = ?l and uid = "''user-1''" and uc = ?uc and ?g2.0 = ?g2
         and plans = "[?t]"] u d rl l1 l2 wl
  have 2: "success (fst (get_task_status_execute ?pr ?l ?c no_globals))"
    "\<exists>dd. data (fst (get_task_status_execute ?pr ?l ?c no_globals)) = Some dd
        \<and> dict_get dd ''pending_checkpoints'' = Some (JList [])
        \<and> dict_get dd ''checkpoint_count'' = Some (JInt 0)"
    by blast+
  from checkpoint_provider_optional [where ctx = ?c and pr = ?pr and g = no_globals
         and arguments = ?s and uid = "''user-1''" and uc = ?uc and ?g2.0 = ?g2
         and pid = "''task-123''" and plan = ?t] u d rs s1 s2 s3
  have 3: "data (fst (get_task_status_execute ?pr ?s ?c no_globals)) = Some (format_plan ?t)"
    by blast
  show ?thesis using d b r 1 2 3 by blast
qed

end
